theory Spec2Isabelle
  imports Complex_Main "HOL-Library.AList"
begin

section \<open>JavaScript values\<close>

text \<open>
  A JavaScript string is a sequence of UTF-16 code units; every character the engine
  tests for lies in the Basic Multilingual Plane, so one code unit is one character.
  Numbers that the engine computes with (relationship factors, deltas, importance levels)
  are integers, on which its arithmetic is exact, or \<open>NaN\<close>; fractions and the infinities
  are outside the model.
\<close>

type_synonym js_string = "nat list"

definition js :: "string \<Rightarrow> js_string" where
  "js s = map of_char s"

text \<open>The comparison of two strings by code units, as the default comparator of \<open>Array.prototype.sort\<close> does.\<close>

fun js_string_lt :: "js_string \<Rightarrow> js_string \<Rightarrow> bool" where
  "js_string_lt [] [] = False"
| "js_string_lt [] (y # ys) = True"
| "js_string_lt (x # xs) [] = False"
| "js_string_lt (x # xs) (y # ys) = (x < y \<or> (x = y \<and> js_string_lt xs ys))"

text \<open>\<open>[a, b].sort()\<close> on a two-element array of strings.\<close>

definition sort2 :: "js_string \<Rightarrow> js_string \<Rightarrow> js_string list" where
  "sort2 a b = (if js_string_lt b a then [b, a] else [a, b])"

text \<open>\<open>Array.prototype.join(sep)\<close>.\<close>

fun join :: "js_string \<Rightarrow> js_string list \<Rightarrow> js_string" where
  "join sep [] = []"
| "join sep [x] = x"
| "join sep (x # y # ys) = x @ sep @ join sep (y # ys)"

text \<open>\<open>String.prototype.startsWith\<close> and \<open>String.prototype.includes\<close>.\<close>

fun startsWith :: "js_string \<Rightarrow> js_string \<Rightarrow> bool" where
  "startsWith s [] = True"
| "startsWith [] (p # ps) = False"
| "startsWith (c # cs) (p # ps) = (c = p \<and> startsWith cs ps)"

fun js_includes :: "js_string \<Rightarrow> js_string \<Rightarrow> bool" where
  "js_includes [] sub = (sub = [])"
| "js_includes (c # cs) sub = (startsWith (c # cs) sub \<or> js_includes cs sub)"

datatype js_number = Num int | NaN

text \<open>\<open>Math.max(0, Math.min(100, v))\<close>; both functions return \<open>NaN\<close> on \<open>NaN\<close>.\<close>

definition clamp100 :: "js_number \<Rightarrow> js_number" where
  "clamp100 v = (case v of Num n \<Rightarrow> Num (max 0 (min 100 n)) | NaN \<Rightarrow> NaN)"

text \<open>
  An object used as a dictionary of numbers is the finite map of its own properties, and
  its prototype is \<open>Object.prototype\<close>. A read \<open>obj[key]\<close> returns the own property when
  there is one; otherwise it walks to the prototype, whose members are functions (and, for
  \<open>__proto__\<close>, the prototype object itself), so the result is a truthy value that is not a
  number; otherwise it is \<open>undefined\<close>.
\<close>

definition Object_prototype_members :: "js_string list" where
  "Object_prototype_members =
     [js ''constructor'', js ''hasOwnProperty'', js ''isPrototypeOf'', js ''propertyIsEnumerable'',
      js ''toLocaleString'', js ''toString'', js ''valueOf'', js ''__proto__'',
      js ''__defineGetter__'', js ''__defineSetter__'', js ''__lookupGetter__'', js ''__lookupSetter__'']"

datatype js_value = Number js_number | Undefined | Inherited_member

definition get_property :: "(js_string \<rightharpoonup> js_number) \<Rightarrow> js_string \<Rightarrow> js_value" where
  "get_property obj key =
     (case obj key of
        Some v \<Rightarrow> Number v
      | None \<Rightarrow> if key \<in> set Object_prototype_members then Inherited_member else Undefined)"

text \<open>\<open>v || 0\<close>: \<open>undefined\<close>, \<open>NaN\<close> and \<open>0\<close> are falsy, an object or function is truthy.\<close>

definition or_zero :: "js_value \<Rightarrow> js_value" where
  "or_zero v = (case v of
                  Number (Num n) \<Rightarrow> Number (Num n)
                | Number NaN \<Rightarrow> Number (Num 0)
                | Undefined \<Rightarrow> Number (Num 0)
                | Inherited_member \<Rightarrow> Inherited_member)"

text \<open>
  The number that \<open>Math.min\<close> sees in \<open>v + delta\<close>: the sum of two numbers; \<open>NaN\<close> for
  \<open>undefined + delta\<close>; and for a function or an object the concatenation of its source or
  tag with the digits of \<open>delta\<close>, a string that is not a numeric literal, hence \<open>NaN\<close>.
\<close>

definition plus_number :: "js_value \<Rightarrow> int \<Rightarrow> js_number" where
  "plus_number v delta =
     (case v of
        Number (Num n) \<Rightarrow> Num (n + delta)
      | Number NaN \<Rightarrow> NaN
      | Undefined \<Rightarrow> NaN
      | Inherited_member \<Rightarrow> NaN)"

text \<open>
  An assignment \<open>obj[key] = v\<close> of an object \<open>v\<close> writes the own property \<open>key\<close>, except for
  the key \<open>__proto__\<close>, where it runs the setter of \<open>Object.prototype\<close>: the prototype of
  \<open>obj\<close> changes and no own property is written. Prototypes are not part of the model, so
  there the map stays as it is.
\<close>

definition assign_property :: "(js_string \<rightharpoonup> 'v) \<Rightarrow> js_string \<Rightarrow> 'v \<Rightarrow> (js_string \<rightharpoonup> 'v)" where
  "assign_property obj key v = (if key = js ''__proto__'' then obj else obj(key \<mapsto> v))"


section \<open>Actions (action\_space.js)\<close>

text \<open>
  \<open>ActionType\<close> and \<open>TargetType\<close> are string enumerations; \<open>OTHER_ACTION\<close> stands for
  any other value of \<open>action.type\<close>, which every \<open>switch\<close> of the engine skips.
\<close>

datatype ActionType = DIALOGUE | ACTION | ITEM | OTHER_ACTION

datatype TargetType = T_NONE | T_CHARACTER | T_ENVIRONMENT | T_ITEM

record action =
  a_type :: ActionType
  actorId :: js_string
  content :: js_string
  targetType :: TargetType
  targetId :: "js_string option"

text \<open>\<open>!action.targetId\<close>: null, undefined and the empty string are falsy.\<close>

definition targetId_falsy :: "js_string option \<Rightarrow> bool" where
  "targetId_falsy t = (case t of None \<Rightarrow> True | Some i \<Rightarrow> i = [])"


section \<open>The Trust Map (trust\_map.js) and the Agent Registry (agent\_registry.js)\<close>

datatype RelationshipType =
  FRIEND | ENEMY | FAMILY | LOVER | ALLY | RIVAL | STRANGER | MENTOR | STUDENT | EMPLOYER | EMPLOYEE

definition TRUST :: js_string where "TRUST = js ''trust''"
definition INTIMACY :: js_string where "INTIMACY = js ''intimacy''"
definition RESPECT :: js_string where "RESPECT = js ''respect''"
definition LOYALTY :: js_string where "LOYALTY = js ''loyalty''"
definition DEPENDENCY :: js_string where "DEPENDENCY = js ''dependency''"

record effect =
  eff_trust :: int
  eff_intimacy :: int
  eff_respect :: int

text \<open>An entry of a relationship's history; an empty \<open>h_timestamp\<close> is a missing one.\<close>

record history_entry =
  h_actionType :: ActionType
  h_content :: js_string
  h_effect :: effect
  h_timestamp :: js_string

record relationship =
  r_type :: RelationshipType
  factors :: "js_string \<rightharpoonup> js_number"
  history :: "history_entry list"
  r_notes :: js_string
  createdAt :: js_string
  updatedAt :: js_string

definition DEFAULT_RELATIONSHIP :: relationship where
  "DEFAULT_RELATIONSHIP =
     \<lparr> r_type = STRANGER,
       factors = [TRUST \<mapsto> Num 50, INTIMACY \<mapsto> Num 0, RESPECT \<mapsto> Num 50, LOYALTY \<mapsto> Num 0,
                  DEPENDENCY \<mapsto> Num 0],
       history = [],
       r_notes = [],
       createdAt = [],
       updatedAt = [] \<rparr>"

text \<open>
  The \<open>relationship\<close> argument of \<open>setRelationship\<close> is an object that may lack any of the
  properties: a property that is present is \<open>Some\<close>.
\<close>

record relationship_data =
  d_type :: "RelationshipType option"
  d_factors :: "(js_string \<rightharpoonup> js_number) option"
  d_history :: "history_entry list option"
  d_notes :: "js_string option"
  d_createdAt :: "js_string option"
  d_updatedAt :: "js_string option"

text \<open>\<open>{ ...base, ...data }\<close>: a shallow merge, each present property replaces the one of \<open>base\<close>.\<close>

definition spread :: "relationship \<Rightarrow> relationship_data \<Rightarrow> relationship" where
  "spread base d =
     \<lparr> r_type = (case d_type d of None \<Rightarrow> r_type base | Some v \<Rightarrow> v),
       factors = (case d_factors d of None \<Rightarrow> factors base | Some v \<Rightarrow> v),
       history = (case d_history d of None \<Rightarrow> history base | Some v \<Rightarrow> v),
       r_notes = (case d_notes d of None \<Rightarrow> r_notes base | Some v \<Rightarrow> v),
       createdAt = (case d_createdAt d of None \<Rightarrow> createdAt base | Some v \<Rightarrow> v),
       updatedAt = (case d_updatedAt d of None \<Rightarrow> updatedAt base | Some v \<Rightarrow> v) \<rparr>"

text \<open>A complete relationship object passed as the data argument.\<close>

definition as_data :: "relationship \<Rightarrow> relationship_data" where
  "as_data r =
     \<lparr> d_type = Some (r_type r), d_factors = Some (factors r), d_history = Some (history r),
       d_notes = Some (r_notes r), d_createdAt = Some (createdAt r), d_updatedAt = Some (updatedAt r) \<rparr>"

datatype AgentType = PLAYER | NPC | GM | ENVIRONMENT

text \<open>
  The properties of an agent record that the relationship code reads or writes; a missing
  \<open>relationships\<close> property is \<open>None\<close>.
\<close>

record agent =
  agent_id :: js_string
  agent_name :: js_string
  agent_type :: AgentType
  agent_relationships :: "(js_string \<rightharpoonup> relationship) option"
  agent_updatedAt :: js_string

text \<open>
  The state the singletons share: the \<open>relationships\<close> map of the Trust Map, the
  \<open>agents\<close> map of the registry, the player slot and the agents array of the game
  state, and the system clock. The clock is the sequence of strings that successive
  \<open>new Date().toISOString()\<close> calls return; \<open>ticks\<close> counts the calls made so far.
\<close>

record world =
  relationships :: "js_string \<rightharpoonup> relationship"
  agents :: "js_string \<rightharpoonup> agent"
  gs_player :: agent
  gs_agents :: "agent list"
  gs_updatedAt :: js_string
  clock :: "nat \<Rightarrow> js_string"
  ticks :: nat

datatype error = SelfRelationshipError

text \<open>A thrown exception ends the call: the rest runs only on a normal result.\<close>

definition bind_err :: "error + 'a \<Rightarrow> ('a \<Rightarrow> error + 'b) \<Rightarrow> error + 'b" where
  "bind_err m f = (case m of Inl e \<Rightarrow> Inl e | Inr x \<Rightarrow> f x)"

definition now_iso :: "world \<Rightarrow> js_string \<times> world" where
  "now_iso w = (clock w (ticks w), w\<lparr>ticks := Suc (ticks w)\<rparr>)"

subsection \<open>Game state and registry updates\<close>

text \<open>
  \<open>gameState.updatePlayer(playerData)\<close> merges the agent record into the player slot, which
  overwrites every property the slot shares with an agent record, and stamps the state;
  \<open>gameState.updateState({ agents })\<close> replaces the agents array and stamps the state.
\<close>

definition updatePlayer :: "agent \<Rightarrow> world \<Rightarrow> world" where
  "updatePlayer playerData w =
     (let w1 = w\<lparr>gs_player := playerData\<rparr>;
          (t, w2) = now_iso w1
      in w2\<lparr>gs_updatedAt := t\<rparr>)"

definition updateState_agents :: "agent list \<Rightarrow> world \<Rightarrow> world" where
  "updateState_agents ags w =
     (let (t, w1) = now_iso w
      in w1\<lparr>gs_agents := ags, gs_updatedAt := t\<rparr>)"

text \<open>\<open>Array.prototype.findIndex\<close>; \<open>None\<close> is the result \<open>-1\<close>.\<close>

fun findIndex :: "('a \<Rightarrow> bool) \<Rightarrow> 'a list \<Rightarrow> nat option" where
  "findIndex p [] = None"
| "findIndex p (x # xs) =
     (if p x then Some 0 else (case findIndex p xs of None \<Rightarrow> None | Some i \<Rightarrow> Some (Suc i)))"

text \<open>
  \<open>updateAgent(agentId, updates)\<close>; the partial object \<open>updates\<close> is given as the function
  that overrides its properties in an agent record.
\<close>

definition updateAgent :: "js_string \<Rightarrow> (agent \<Rightarrow> agent) \<Rightarrow> world \<Rightarrow> agent option \<times> world" where
  "updateAgent agentId updates w =
     (case agents w agentId of
        None \<Rightarrow> (None, w)
      | Some ag \<Rightarrow>
          (let (t, w1) = now_iso w;
               updatedAgent = (updates ag)\<lparr>agent_updatedAt := t\<rparr>;
               w2 = w1\<lparr>agents := (agents w1)(agentId \<mapsto> updatedAgent)\<rparr>;
               w3 = (if agentId = js ''player'' then updatePlayer updatedAgent w2
                     else if agent_type ag = NPC then
                       (let ags = gs_agents w2;
                            ags' = (case findIndex (\<lambda>a. agent_id a = agentId) ags of
                                      Some i \<Rightarrow> ags[i := updatedAgent]
                                    | None \<Rightarrow> ags @ [updatedAgent])
                        in updateState_agents ags' w2)
                     else w2)
           in (Some updatedAgent, w3)))"

text \<open>\<open>agent.relationships || {}\<close>.\<close>

definition relationships_or_empty :: "agent \<Rightarrow> (js_string \<rightharpoonup> relationship)" where
  "relationships_or_empty ag = (case agent_relationships ag of None \<Rightarrow> Map.empty | Some m \<Rightarrow> m)"

text \<open>
  \<open>_updateAgentRelationships\<close>: both agents are looked up before either is updated; each
  gets a copy of the own properties of its \<open>relationships\<close> object with
  \<open>relationships[otherId] = relationship\<close> assigned.
\<close>

definition updateAgentRelationships :: "js_string \<Rightarrow> js_string \<Rightarrow> relationship \<Rightarrow> world \<Rightarrow> world" where
  "updateAgentRelationships agentId1 agentId2 rel w =
     (let agent1 = agents w agentId1;
          agent2 = agents w agentId2;
          w1 = (case agent1 of
                  None \<Rightarrow> w
                | Some a1 \<Rightarrow>
                    snd (updateAgent agentId1
                      (\<lambda>a. a\<lparr>agent_relationships :=
                              Some (assign_property (relationships_or_empty a1) agentId2 rel)\<rparr>) w))
      in (case agent2 of
            None \<Rightarrow> w1
          | Some a2 \<Rightarrow>
              snd (updateAgent agentId2
                (\<lambda>a. a\<lparr>agent_relationships :=
                        Some (assign_property (relationships_or_empty a2) agentId1 rel)\<rparr>) w1)))"

subsection \<open>Trust Map operations\<close>

text \<open>\<open>_getRelationshipKey\<close>: the two ids sorted and joined with an underscore.\<close>

definition getRelationshipKey :: "js_string \<Rightarrow> js_string \<Rightarrow> js_string" where
  "getRelationshipKey agentId1 agentId2 = join (js ''_'') (sort2 agentId1 agentId2)"

text \<open>
  The object \<open>completeRelationship\<close> that \<open>setRelationship\<close> builds at time \<open>t\<close>: the data
  merged onto the default template, \<open>updatedAt\<close> overwritten, and \<open>createdAt\<close> set when
  the merged value is falsy.
\<close>

definition completeRelationship :: "relationship_data \<Rightarrow> js_string \<Rightarrow> relationship" where
  "completeRelationship data t =
     (let merged = (spread DEFAULT_RELATIONSHIP data)\<lparr>updatedAt := t\<rparr>
      in if createdAt merged = [] then merged\<lparr>createdAt := t\<rparr> else merged)"

definition setRelationship ::
  "js_string \<Rightarrow> js_string \<Rightarrow> relationship_data \<Rightarrow> world \<Rightarrow> error + (relationship \<times> world)" where
  "setRelationship agentId1 agentId2 data w =
     (if agentId1 = agentId2 then Inl SelfRelationshipError
      else
        (let key = getRelationshipKey agentId1 agentId2;
             (t, w1) = now_iso w;
             rel = completeRelationship data t;
             w2 = w1\<lparr>relationships := (relationships w1)(key \<mapsto> rel)\<rparr>;
             w3 = updateAgentRelationships agentId1 agentId2 rel w2
         in Inr (rel, w3)))"

definition getRelationship :: "js_string \<Rightarrow> js_string \<Rightarrow> world \<Rightarrow> relationship option" where
  "getRelationship agentId1 agentId2 w =
     (if agentId1 = agentId2 then None
      else relationships w (getRelationshipKey agentId1 agentId2))"

text \<open>
  \<open>updateRelationshipFactor\<close>: the computed key \<open>[factor]\<close> of the object literal always
  defines an own property.
\<close>

definition updateRelationshipFactor ::
  "js_string \<Rightarrow> js_string \<Rightarrow> js_string \<Rightarrow> js_number \<Rightarrow> world \<Rightarrow> error + (relationship option \<times> world)" where
  "updateRelationshipFactor agentId1 agentId2 factor v w =
     (case getRelationship agentId1 agentId2 w of
        None \<Rightarrow> Inr (None, w)
      | Some rel \<Rightarrow>
          (let clampedValue = clamp100 v;
               (t, w1) = now_iso w;
               updatedRelationship = rel\<lparr>factors := (factors rel)(factor \<mapsto> clampedValue), updatedAt := t\<rparr>
           in (case setRelationship agentId1 agentId2 (as_data updatedRelationship) w1 of
                 Inl e \<Rightarrow> Inl e
               | Inr (r, w2) \<Rightarrow> Inr (Some r, w2))))"

definition adjustRelationshipFactor ::
  "js_string \<Rightarrow> js_string \<Rightarrow> js_string \<Rightarrow> int \<Rightarrow> world \<Rightarrow> error + (relationship option \<times> world)" where
  "adjustRelationshipFactor agentId1 agentId2 factor delta w =
     (case getRelationship agentId1 agentId2 w of
        None \<Rightarrow> Inr (None, w)
      | Some rel \<Rightarrow>
          (let currentValue = or_zero (get_property (factors rel) factor);
               newValue = clamp100 (plus_number currentValue delta)
           in updateRelationshipFactor agentId1 agentId2 factor newValue w))"

definition addRelationshipHistory ::
  "js_string \<Rightarrow> js_string \<Rightarrow> history_entry \<Rightarrow> world \<Rightarrow> error + (relationship option \<times> world)" where
  "addRelationshipHistory agentId1 agentId2 historyEntry w =
     (case getRelationship agentId1 agentId2 w of
        None \<Rightarrow> Inr (None, w)
      | Some rel \<Rightarrow>
          (let (completeEntry, w1) =
                 (if h_timestamp historyEntry = []
                  then (let (t, w') = now_iso w in (historyEntry\<lparr>h_timestamp := t\<rparr>, w'))
                  else (historyEntry, w));
               hist = history rel @ [completeEntry];
               (t2, w2) = now_iso w1;
               updatedRelationship = rel\<lparr>history := hist, updatedAt := t2\<rparr>
           in (case setRelationship agentId1 agentId2 (as_data updatedRelationship) w2 of
                 Inl e \<Rightarrow> Inl e
               | Inr (r, w3) \<Rightarrow> Inr (Some r, w3))))"

text \<open>
  The keyword tables of \<open>processActionEffect\<close>, as code units:
  gratitude \<open>U+611F U+8C22\<close>, \<open>U+8C22 U+8C22\<close>; apology \<open>U+62B1 U+6B49\<close>,
  \<open>U+5BF9 U+4E0D U+8D77\<close>; affection \<open>U+559C U+6B22\<close>, \<open>U+7231\<close>; hostility
  \<open>U+8BA8 U+538C\<close>, \<open>U+6068\<close>; help \<open>U+5E2E U+52A9\<close>, \<open>U+63F4 U+52A9\<close>; attack
  \<open>U+653B U+51FB\<close>, \<open>U+4F24 U+5BB3\<close>; embrace \<open>U+62E5 U+62B1\<close>, \<open>U+4EB2 U+543B\<close>;
  give \<open>U+8D60 U+9001\<close>, \<open>U+7ED9 U+4E88\<close>; steal \<open>U+5077 U+7A83\<close>, \<open>U+62A2 U+593A\<close>.
\<close>

definition kw_ganxie :: js_string where "kw_ganxie = [0x611F, 0x8C22]"
definition kw_xiexie :: js_string where "kw_xiexie = [0x8C22, 0x8C22]"
definition kw_baoqian :: js_string where "kw_baoqian = [0x62B1, 0x6B49]"
definition kw_duibuqi :: js_string where "kw_duibuqi = [0x5BF9, 0x4E0D, 0x8D77]"
definition kw_xihuan :: js_string where "kw_xihuan = [0x559C, 0x6B22]"
definition kw_ai :: js_string where "kw_ai = [0x7231]"
definition kw_taoyan :: js_string where "kw_taoyan = [0x8BA8, 0x538C]"
definition kw_hen :: js_string where "kw_hen = [0x6068]"
definition kw_bangzhu :: js_string where "kw_bangzhu = [0x5E2E, 0x52A9]"
definition kw_yuanzhu :: js_string where "kw_yuanzhu = [0x63F4, 0x52A9]"
definition kw_gongji :: js_string where "kw_gongji = [0x653B, 0x51FB]"
definition kw_shanghai :: js_string where "kw_shanghai = [0x4F24, 0x5BB3]"
definition kw_yongbao :: js_string where "kw_yongbao = [0x62E5, 0x62B1]"
definition kw_qinwen :: js_string where "kw_qinwen = [0x4EB2, 0x543B]"
definition kw_zengsong :: js_string where "kw_zengsong = [0x8D60, 0x9001]"
definition kw_jiyu :: js_string where "kw_jiyu = [0x7ED9, 0x4E88]"
definition kw_touqie :: js_string where "kw_touqie = [0x5077, 0x7A83]"
definition kw_qiangduo :: js_string where "kw_qiangduo = [0x62A2, 0x593A]"

text \<open>
  The \<open>switch\<close> of \<open>processActionEffect\<close> that sets \<open>trustDelta\<close>, \<open>intimacyDelta\<close> and
  \<open>respectDelta\<close>, all three initially 0.
\<close>

definition action_deltas :: "ActionType \<Rightarrow> js_string \<Rightarrow> effect" where
  "action_deltas ty c =
     (case ty of
        DIALOGUE \<Rightarrow>
          (if js_includes c kw_ganxie \<or> js_includes c kw_xiexie
             then \<lparr>eff_trust = 2, eff_intimacy = 0, eff_respect = 1\<rparr>
           else if js_includes c kw_baoqian \<or> js_includes c kw_duibuqi
             then \<lparr>eff_trust = 1, eff_intimacy = 0, eff_respect = 2\<rparr>
           else if js_includes c kw_xihuan \<or> js_includes c kw_ai
             then \<lparr>eff_trust = 1, eff_intimacy = 3, eff_respect = 0\<rparr>
           else if js_includes c kw_taoyan \<or> js_includes c kw_hen
             then \<lparr>eff_trust = -1, eff_intimacy = -3, eff_respect = 0\<rparr>
           else \<lparr>eff_trust = 0, eff_intimacy = 0, eff_respect = 0\<rparr>)
      | ACTION \<Rightarrow>
          (if js_includes c kw_bangzhu \<or> js_includes c kw_yuanzhu
             then \<lparr>eff_trust = 3, eff_intimacy = 0, eff_respect = 2\<rparr>
           else if js_includes c kw_gongji \<or> js_includes c kw_shanghai
             then \<lparr>eff_trust = -5, eff_intimacy = 0, eff_respect = -3\<rparr>
           else if js_includes c kw_yongbao \<or> js_includes c kw_qinwen
             then \<lparr>eff_trust = 0, eff_intimacy = 4, eff_respect = 0\<rparr>
           else \<lparr>eff_trust = 0, eff_intimacy = 0, eff_respect = 0\<rparr>)
      | ITEM \<Rightarrow>
          (if js_includes c kw_zengsong \<or> js_includes c kw_jiyu
             then \<lparr>eff_trust = 2, eff_intimacy = 1, eff_respect = 0\<rparr>
           else if js_includes c kw_touqie \<or> js_includes c kw_qiangduo
             then \<lparr>eff_trust = -4, eff_intimacy = 0, eff_respect = -2\<rparr>
           else \<lparr>eff_trust = 0, eff_intimacy = 0, eff_respect = 0\<rparr>)
      | OTHER_ACTION \<Rightarrow> \<lparr>eff_trust = 0, eff_intimacy = 0, eff_respect = 0\<rparr>)"

text \<open>One guarded call \<open>if (delta !== 0) this.adjustRelationshipFactor(...)\<close>; its result is dropped.\<close>

definition adjust_if_nonzero ::
  "js_string \<Rightarrow> js_string \<Rightarrow> js_string \<Rightarrow> int \<Rightarrow> world \<Rightarrow> error + world" where
  "adjust_if_nonzero actor target factor delta w =
     (if delta \<noteq> 0
      then (case adjustRelationshipFactor actor target factor delta w of
              Inl e \<Rightarrow> Inl e
            | Inr (r, w') \<Rightarrow> Inr w')
      else Inr w)"

definition processActionEffect :: "action \<Rightarrow> world \<Rightarrow> error + (relationship option \<times> world)" where
  "processActionEffect act w =
     (if targetType act \<noteq> T_CHARACTER \<or> targetId_falsy (targetId act) then Inr (None, w)
      else
        (let actor = actorId act;
             target = the (targetId act)
         in if actor = target then Inr (None, w)
            else (case getRelationship actor target w of
                    None \<Rightarrow> Inr (None, w)
                  | Some rel \<Rightarrow>
                      (let eff = action_deltas (a_type act) (content act)
                       in bind_err (adjust_if_nonzero actor target TRUST (eff_trust eff) w) (\<lambda>w1.
                          bind_err (adjust_if_nonzero actor target INTIMACY (eff_intimacy eff) w1) (\<lambda>w2.
                          bind_err (adjust_if_nonzero actor target RESPECT (eff_respect eff) w2) (\<lambda>w3.
                          bind_err (addRelationshipHistory actor target
                                      \<lparr>h_actionType = a_type act, h_content = content act,
                                        h_effect = eff, h_timestamp = []\<rparr> w3) (\<lambda>(r, w4).
                          Inr (getRelationship actor target w4, w4)))))))))"


section \<open>The Agent Response Policy (agent\_policy.js)\<close>

datatype ResponseType = R_DIALOGUE | R_ACTION | R_EMOTION | R_DECISION | R_REJECTION

text \<open>The request keyword \<open>U+8BF7 U+6C42\<close>; the help keyword is \<open>kw_bangzhu\<close>.\<close>

definition kw_qingqiu :: js_string where "kw_qingqiu = [0x8BF7, 0x6C42]"

text \<open>
  The response context that \<open>_prepareResponseContext\<close> builds, reduced to the properties
  \<open>_determineResponseType\<close> reads: the agent, the action, and the relationship with the
  actor (null when there is none; a factor the relationship lacks is \<open>None\<close>). The emotion
  intensity may be fractional, so it is a real number.
\<close>

record context_agent =
  ca_id :: js_string
  ca_emotionIntensity :: real

record context_action =
  cx_type :: ActionType
  cx_content :: js_string
  cx_actorId :: "js_string option"
  cx_targetId :: "js_string option"

record context_relationship =
  cr_type :: RelationshipType
  cr_trust :: "int option"
  cr_intimacy :: "int option"
  cr_respect :: "int option"

record response_context =
  ctx_agent :: context_agent
  ctx_action :: context_action
  ctx_relationship :: "context_relationship option"

text \<open>\<open>relationship && relationship.trust < 20\<close>; a comparison with \<open>undefined\<close> is false.\<close>

definition low_trust :: "context_relationship option \<Rightarrow> bool" where
  "low_trust rel = (case rel of
                      None \<Rightarrow> False
                    | Some r \<Rightarrow> (case cr_trust r of None \<Rightarrow> False | Some t \<Rightarrow> t < 20))"

text \<open>
  \<open>_determineResponseType(context)\<close>; \<open>random\<close> is the value that \<open>Math.random()\<close> returns,
  a number in \<open>[0, 1)\<close>, and the threshold \<open>0.7\<close> is taken as the fraction \<open>7/10\<close>.
\<close>

definition determineResponseType :: "response_context \<Rightarrow> real \<Rightarrow> ResponseType" where
  "determineResponseType ctx random =
     (if cx_type (ctx_action ctx) = DIALOGUE \<and> cx_targetId (ctx_action ctx) = Some (ca_id (ctx_agent ctx))
        then R_DIALOGUE
      else if ca_emotionIntensity (ctx_agent ctx) > 70
        then R_EMOTION
      else if js_includes (cx_content (ctx_action ctx)) kw_qingqiu \<or>
              js_includes (cx_content (ctx_action ctx)) kw_bangzhu
        then R_DECISION
      else if low_trust (ctx_relationship ctx)
        then (if random > 7 / 10 then R_REJECTION else R_DIALOGUE)
      else R_DIALOGUE)"

text \<open>
  A uniform generator of resolution \<open>N\<close> returns one of the \<open>N\<close> equally spaced numbers
  \<open>k / N\<close> with \<open>k < N\<close>, each with the same probability; the probability of an event is the
  fraction of these draws that lie in it.
\<close>

definition draws :: "nat \<Rightarrow> real list" where
  "draws N = map (\<lambda>k. real k / real N) [0..<N]"

definition probability :: "nat \<Rightarrow> (real \<Rightarrow> bool) \<Rightarrow> real" where
  "probability N E = real (length (filter E (draws N))) / real N"


section \<open>The History Log (history.js)\<close>

datatype HistoryEntryType = H_ACTION | H_STATE_CHANGE | H_SYSTEM | H_NPC_RESPONSE | H_ENVIRONMENT

text \<open>
  A history entry as it is passed to \<open>addEntry\<close>: any of its properties may be missing.
  Timestamps of the log are the numbers \<open>Date.now()\<close> returns.
\<close>

record entry =
  e_id :: "js_string option"
  e_timestamp :: "int option"
  e_type :: "HistoryEntryType option"
  e_actorId :: "js_string option"
  e_npcId :: "js_string option"
  e_content :: "js_string option"

record history_manager =
  hm_history :: "entry list"
  maxHistoryLength :: nat

text \<open>
  \<open>{ id: this._generateEntryId(), timestamp: Date.now(), ...entry }\<close>: the generated id and
  the clock reading are defaults that the entry's own properties override. Both come from
  the environment.
\<close>

definition completeEntry :: "js_string \<Rightarrow> int \<Rightarrow> entry \<Rightarrow> entry" where
  "completeEntry generatedId now e =
     e\<lparr> e_id := (case e_id e of None \<Rightarrow> Some generatedId | Some i \<Rightarrow> Some i),
        e_timestamp := (case e_timestamp e of None \<Rightarrow> Some now | Some t \<Rightarrow> Some t) \<rparr>"

text \<open>\<open>Array.prototype.shift\<close> removes the element at index 0 (and leaves an empty array empty).\<close>

definition shift :: "'a list \<Rightarrow> 'a list" where
  "shift xs = (case xs of [] \<Rightarrow> [] | x # rest \<Rightarrow> rest)"

definition addEntry :: "js_string \<Rightarrow> int \<Rightarrow> entry \<Rightarrow> history_manager \<Rightarrow> entry \<times> history_manager" where
  "addEntry generatedId now e hm =
     (let complete = completeEntry generatedId now e;
          pushed = hm_history hm @ [complete];
          kept = (if length pushed > maxHistoryLength hm then shift pushed else pushed)
      in (complete, hm\<lparr>hm_history := kept\<rparr>))"

text \<open>A sequence of \<open>addEntry\<close> calls, each with the id and the time the environment supplies.\<close>

fun addEntries :: "(js_string \<times> int \<times> entry) list \<Rightarrow> history_manager \<Rightarrow> history_manager" where
  "addEntries [] hm = hm"
| "addEntries ((g, t, e) # calls) hm = addEntries calls (snd (addEntry g t e hm))"

text \<open>\<open>clearHistory\<close>.\<close>

definition clearHistory :: "history_manager \<Rightarrow> history_manager" where
  "clearHistory hm = hm\<lparr>hm_history := []\<rparr>"

text \<open>
  \<open>importHistory(jsonString)\<close>, given the outcome of \<open>JSON.parse(jsonString)\<close>: a thrown
  syntax error, a value that is not an array, or an array of entries. An array replaces the
  log as it is, whatever its length; in the other two cases the exception is caught, the log
  stays and the result is \<open>false\<close>.
\<close>

datatype parsed_json = Syntax_error | Not_an_array | Array_of "entry list"

definition importHistory :: "parsed_json \<Rightarrow> history_manager \<Rightarrow> bool \<times> history_manager" where
  "importHistory importedHistory hm =
     (case importedHistory of
        Syntax_error \<Rightarrow> (False, hm)
      | Not_an_array \<Rightarrow> (False, hm)
      | Array_of es \<Rightarrow> (True, hm\<lparr>hm_history := es\<rparr>))"

section \<open>The Memory Store (memory\_manager.js)\<close>

text \<open>
  The value of a \<open>createdAt\<close> or \<open>updatedAt\<close> property: missing or empty (falsy), a date
  string, of which the model keeps the number that \<open>new Date(s).getTime()\<close> returns, or any
  other value, for which \<open>getTime()\<close> is \<open>NaN\<close>.
\<close>

datatype js_date = NoDate | DateAt int | BadDate

definition getTime :: "js_date \<Rightarrow> int option" where
  "getTime d = (case d of DateAt t \<Rightarrow> Some t | _ \<Rightarrow> None)"

datatype MemoryType = M_EVENT | M_CHARACTER | M_RELATIONSHIP | M_ENVIRONMENT | M_KNOWLEDGE | M_GOAL

definition HIGH :: int where "HIGH = 3"
definition CRITICAL :: int where "CRITICAL = 4"

text \<open>A memory object; a missing \<open>id\<close> or \<open>importance\<close> is \<open>None\<close>.\<close>

record memory =
  m_id :: "js_string option"
  m_type :: MemoryType
  m_content :: js_string
  m_agentId :: "js_string option"
  importance :: "int option"
  m_createdAt :: js_date
  m_updatedAt :: js_date

text \<open>
  The \<open>memories\<close> map of the manager in its iteration order, which is the order of first
  insertion, and the capacity. The mirrors that \<open>deleteMemory\<close> and \<open>addMemory\<close> also update
  (the per-agent id sets, the agent records and the game state) never feed back into
  \<open>memories\<close> and are not part of this state.
\<close>

record memory_manager =
  memories :: "(js_string \<times> memory) list"
  maxMemories :: nat

text \<open>\<open>!memory.id\<close> and \<open>if (oldestId)\<close>: null, undefined and the empty string are falsy.\<close>

definition id_falsy :: "js_string option \<Rightarrow> bool" where
  "id_falsy i = (case i of None \<Rightarrow> True | Some s \<Rightarrow> s = [])"

text \<open>\<open>memory.importance < MemoryImportance.CRITICAL\<close>; false when the importance is missing.\<close>

definition below_critical :: "memory \<Rightarrow> bool" where
  "below_critical m = (case importance m of None \<Rightarrow> False | Some i \<Rightarrow> i < CRITICAL)"

definition deleteMemory :: "js_string \<Rightarrow> memory_manager \<Rightarrow> bool \<times> memory_manager" where
  "deleteMemory memoryId mm =
     (case map_of (memories mm) memoryId of
        None \<Rightarrow> (False, mm)
      | Some m \<Rightarrow> (True, mm\<lparr>memories := AList.delete memoryId (memories mm)\<rparr>))"

text \<open>
  One step of the \<open>forEach\<close> of \<open>_removeOldestMemory\<close> on the pair \<open>(oldestId, oldestTime)\<close>;
  a comparison with \<open>NaN\<close> is false.
\<close>

fun scan_oldest :: "js_string \<times> memory \<Rightarrow> js_string option \<times> int \<Rightarrow> js_string option \<times> int" where
  "scan_oldest (i, m) (oldestId, oldestTime) =
     (if below_critical m
      then (case getTime (m_createdAt m) of
              None \<Rightarrow> (oldestId, oldestTime)
            | Some createdTime \<Rightarrow>
                if createdTime < oldestTime then (Some i, createdTime) else (oldestId, oldestTime))
      else (oldestId, oldestTime))"

text \<open>\<open>_removeOldestMemory()\<close>; \<open>now\<close> is the value of \<open>Date.now()\<close> that starts the scan.\<close>

definition removeOldestMemory :: "int \<Rightarrow> memory_manager \<Rightarrow> memory_manager" where
  "removeOldestMemory now mm =
     (case fold scan_oldest (memories mm) (None, now) of
        (oldestId, oldestTime) \<Rightarrow>
          if id_falsy oldestId then mm else snd (deleteMemory (the oldestId) mm))"

text \<open>
  \<open>addMemory(memory)\<close>; the environment supplies the generated id, the two clock readings
  that stamp \<open>createdAt\<close> and \<open>updatedAt\<close>, and the \<open>Date.now()\<close> of the eviction.
\<close>

definition addMemory ::
  "js_string \<Rightarrow> int \<Rightarrow> int \<Rightarrow> int \<Rightarrow> memory \<Rightarrow> memory_manager \<Rightarrow> js_string \<times> memory_manager" where
  "addMemory generatedId created updated now memory mm =
     (let m1 = (if id_falsy (m_id memory) then memory\<lparr>m_id := Some generatedId\<rparr> else memory);
          m2 = (if m_createdAt m1 = NoDate then m1\<lparr>m_createdAt := DateAt created\<rparr> else m1);
          m3 = m2\<lparr>m_updatedAt := DateAt updated\<rparr>;
          mm1 = mm\<lparr>memories := AList.update (the (m_id m3)) m3 (memories mm)\<rparr>;
          mm2 = (if length (memories mm1) > maxMemories mm1 then removeOldestMemory now mm1 else mm1)
      in (the (m_id m3), mm2))"



section \<open>Parsing free text into an action (action\_space.js)\<close>

text \<open>The character classes \<open>\s\<close> and \<open>.\<close> of a regular expression without flags.\<close>

definition white_space :: "nat \<Rightarrow> bool" where
  "white_space c = (c \<in> {0x09, 0x0A, 0x0B, 0x0C, 0x0D, 0x20, 0xA0, 0x1680, 0x2028, 0x2029,
                          0x202F, 0x205F, 0x3000, 0xFEFF} \<or> (0x2000 \<le> c \<and> c \<le> 0x200A))"

definition dot :: "nat \<Rightarrow> bool" where
  "dot c = (c \<notin> {0x0A, 0x0D, 0x2028, 0x2029})"

definition one_of :: "nat list \<Rightarrow> nat \<Rightarrow> bool" where
  "one_of cs c = (c \<in> set cs)"

text \<open>
  The three patterns of \<open>parseActionInput\<close> are sequences of character classes under \<open>*\<close>,
  \<open>?\<close>, or in the capturing group \<open>(c+?)\<close>, between \<open>^\<close> and \<open>$\<close>. \<open>GroupLazyMore\<close> is the
  state of the group after its first character.
\<close>

datatype regex_item =
    Star "nat \<Rightarrow> bool"
  | Class "nat \<Rightarrow> bool"
  | Optional "nat \<Rightarrow> bool"
  | GroupLazyPlus "nat \<Rightarrow> bool"
  | GroupLazyMore "nat \<Rightarrow> bool"

text \<open>
  The backtracking matcher: \<open>rx items s cap\<close> matches the rest \<open>s\<close> of the input against the
  remaining items up to the end of the input and returns the capture of the first match in
  the order of the backtracking search: a greedy item first takes a character, a lazy one
  first stops.
\<close>

fun rx :: "regex_item list \<Rightarrow> js_string \<Rightarrow> js_string \<Rightarrow> js_string option" where
  "rx [] s cap = (if s = [] then Some cap else None)"
| "rx (Class p # r) s cap =
     (case s of [] \<Rightarrow> None | c # cs \<Rightarrow> if p c then rx r cs cap else None)"
| "rx (Optional p # r) s cap =
     (case s of
        [] \<Rightarrow> rx r [] cap
      | c # cs \<Rightarrow>
          if p c then (case rx r cs cap of Some g \<Rightarrow> Some g | None \<Rightarrow> rx r (c # cs) cap)
          else rx r (c # cs) cap)"
| "rx (Star p # r) s cap =
     (case s of
        [] \<Rightarrow> rx r [] cap
      | c # cs \<Rightarrow>
          if p c then (case rx (Star p # r) cs cap of Some g \<Rightarrow> Some g | None \<Rightarrow> rx r (c # cs) cap)
          else rx r (c # cs) cap)"
| "rx (GroupLazyPlus p # r) s cap =
     (case s of [] \<Rightarrow> None | c # cs \<Rightarrow> if p c then rx (GroupLazyMore p # r) cs [c] else None)"
| "rx (GroupLazyMore p # r) s cap =
     (case rx r s cap of
        Some g \<Rightarrow> Some g
      | None \<Rightarrow>
          (case s of [] \<Rightarrow> None | c # cs \<Rightarrow> if p c then rx (GroupLazyMore p # r) cs (cap @ [c]) else None))"

declare rx.simps [simp del]

text \<open>
  \<open>input.match(re)[1]\<close> for a pattern that starts with \<open>^\<close>: the match can only start at
  index 0; \<open>None\<close> is the result null.
\<close>

definition js_match :: "regex_item list \<Rightarrow> js_string \<Rightarrow> js_string option" where
  "js_match re input = rx re input []"

definition actionRegex :: "regex_item list" where
  "actionRegex = [Star white_space, Class (one_of [0x5B, 0x3010]), GroupLazyPlus dot,
                  Class (one_of [0x5D, 0x3011]), Star white_space]"

definition itemRegex :: "regex_item list" where
  "itemRegex = [Star white_space, Class (one_of [0x7B, 0x300C]), GroupLazyPlus dot,
                Class (one_of [0x7D, 0x300D]), Star white_space]"

definition dialogueRegex :: "regex_item list" where
  "dialogueRegex = [Star white_space, Class (one_of [0x22, 0x22]), GroupLazyPlus dot,
                    Optional (one_of [0x22, 0x22]), Star white_space]"

record parsed =
  p_type :: ActionType
  p_content :: js_string

definition parseActionInput :: "js_string \<Rightarrow> parsed" where
  "parseActionInput input =
     (case js_match actionRegex input of
        Some g \<Rightarrow> \<lparr>p_type = ACTION, p_content = g\<rparr>
      | None \<Rightarrow>
     (case js_match itemRegex input of
        Some g \<Rightarrow> \<lparr>p_type = ITEM, p_content = g\<rparr>
      | None \<Rightarrow>
     (case js_match dialogueRegex input of
        Some g \<Rightarrow> \<lparr>p_type = DIALOGUE, p_content = g\<rparr>
      | None \<Rightarrow> \<lparr>p_type = DIALOGUE, p_content = input\<rparr>)))"


section \<open>Concrete scenarios\<close>

text \<open>
  A registry with the player and one NPC, a Trust Map holding one relationship between
  them, and a clock whose successive readings are \<open>t1\<close>, \<open>t2\<close>, \<dots>
\<close>

definition rel_with :: "int \<Rightarrow> int \<Rightarrow> relationship" where
  "rel_with t r = DEFAULT_RELATIONSHIP\<lparr>factors := [TRUST \<mapsto> Num t, INTIMACY \<mapsto> Num 0, RESPECT \<mapsto> Num r],
                                        createdAt := js ''t0'', updatedAt := js ''t0''\<rparr>"

definition agent0 :: "js_string \<Rightarrow> AgentType \<Rightarrow> agent" where
  "agent0 i ty = \<lparr>agent_id = i, agent_name = i, agent_type = ty, agent_relationships = None,
                  agent_updatedAt = js ''t0''\<rparr>"

definition world_with :: "relationship \<Rightarrow> world" where
  "world_with rel =
     \<lparr> relationships = [js ''npc1_player'' \<mapsto> rel],
       agents = [js ''player'' \<mapsto> agent0 (js ''player'') PLAYER, js ''npc1'' \<mapsto> agent0 (js ''npc1'') NPC],
       gs_player = agent0 (js ''player'') PLAYER,
       gs_agents = [],
       gs_updatedAt = js ''t0'',
       clock = (\<lambda>n. js ''t'' @ [49 + n]),
       ticks = 0 \<rparr>"


text \<open>
  A dialogue of the player towards the NPC whose content holds a gratitude keyword and an
  affection keyword (\<open>U+8C22 U+8C22 U+4F60 U+7231\<close>).
\<close>

definition thanks_action :: action where
  "thanks_action = \<lparr> a_type = DIALOGUE, actorId = js ''player'', content = [0x8C22, 0x8C22, 0x4F60, 0x7231],
                      targetType = T_CHARACTER, targetId = Some (js ''npc1'') \<rparr>"

text \<open>A data argument that carries only a relationship type.\<close>

definition friend_data :: relationship_data where
  "friend_data = \<lparr> d_type = Some FRIEND, d_factors = None, d_history = None, d_notes = None,
                     d_createdAt = None, d_updatedAt = None \<rparr>"

text \<open>
  A log of capacity 2, three calls of \<open>addEntry\<close> with the id and time the environment
  generates for each (the third entry brings its own id), and an exported log of three
  entries.
\<close>

definition small_log :: history_manager where
  "small_log = \<lparr> hm_history = [], maxHistoryLength = 2 \<rparr>"

definition action_entry :: "js_string \<Rightarrow> entry" where
  "action_entry c = \<lparr> e_id = None, e_timestamp = None, e_type = Some H_ACTION,
                       e_actorId = Some (js ''player''), e_npcId = None, e_content = Some c \<rparr>"

definition three_calls :: "(js_string \<times> int \<times> entry) list" where
  "three_calls = [(js ''e1'', 1, action_entry (js ''a'')),
                  (js ''e2'', 2, action_entry (js ''b'')),
                  (js ''e3'', 3, (action_entry (js ''c''))\<lparr>e_id := Some (js ''own'')\<rparr>)]"

definition exported_entries :: "entry list" where
  "exported_entries =
     [(action_entry (js ''x''))\<lparr>e_id := Some (js ''o1''), e_timestamp := Some 0\<rparr>,
      (action_entry (js ''y''))\<lparr>e_id := Some (js ''o2''), e_timestamp := Some 0\<rparr>,
      (action_entry (js ''z''))\<lparr>e_id := Some (js ''o3''), e_timestamp := Some 0\<rparr>]"

text \<open>
  A response context that reaches the low-trust branch: a physical action without keywords,
  a calm agent, trust 10.
\<close>

definition low_trust_context :: response_context where
  "low_trust_context =
     \<lparr> ctx_agent = \<lparr> ca_id = js ''npc1'', ca_emotionIntensity = 50 \<rparr>,
       ctx_action = \<lparr> cx_type = ACTION, cx_content = js ''look'', cx_actorId = Some (js ''player''),
                      cx_targetId = None \<rparr>,
       ctx_relationship = Some \<lparr> cr_type = STRANGER, cr_trust = Some 10, cr_intimacy = Some 0,
                                 cr_respect = Some 50 \<rparr> \<rparr>"





section \<open>Properties of the Trust Map\<close>

subsection \<open>Relationship keys\<close>

lemma js_string_lt_asym: "js_string_lt a b \<Longrightarrow> \<not> js_string_lt b a"
  by (induction a b rule: js_string_lt.induct) auto

lemma js_string_lt_total: "\<not> js_string_lt a b \<Longrightarrow> \<not> js_string_lt b a \<Longrightarrow> a = b"
  by (induction a b rule: js_string_lt.induct) auto

lemma sort2_commute: "sort2 a b = sort2 b a"
  using js_string_lt_asym js_string_lt_total by (auto simp: sort2_def)

lemma getRelationshipKey_commute: "getRelationshipKey a b = getRelationshipKey b a"
  by (simp add: getRelationshipKey_def sort2_commute)

lemma getRelationship_Some_neq: "getRelationship a b w = Some r \<Longrightarrow> a \<noteq> b"
  by (auto simp: getRelationship_def)

lemma factor_names_distinct:
  "TRUST \<noteq> INTIMACY" "TRUST \<noteq> RESPECT" "INTIMACY \<noteq> RESPECT"
  "INTIMACY \<noteq> TRUST" "RESPECT \<noteq> TRUST" "RESPECT \<noteq> INTIMACY"
  by (simp_all add: TRUST_def INTIMACY_def RESPECT_def js_def)

lemma factor_names_own:
  "TRUST \<notin> set Object_prototype_members" "INTIMACY \<notin> set Object_prototype_members"
  "RESPECT \<notin> set Object_prototype_members" "LOYALTY \<notin> set Object_prototype_members"
  "DEPENDENCY \<notin> set Object_prototype_members"
  by (simp_all add: Object_prototype_members_def TRUST_def INTIMACY_def RESPECT_def LOYALTY_def
                    DEPENDENCY_def js_def)

lemma get_world_with: "getRelationship (js ''player'') (js ''npc1'') (world_with rel) = Some rel"
  by (simp add: getRelationship_def getRelationshipKey_def sort2_def world_with_def js_def)

text \<open>
  Claim C1. In every state of the Trust Map, \<open>getRelationship(a, b)\<close> and
  \<open>getRelationship(b, a)\<close> return the same value, and \<open>getRelationship(a, a)\<close> returns
  null.
\<close>

theorem getRelationship_symmetric:
  "getRelationship a b w = getRelationship b a w \<and> getRelationship a a w = None"
  by (auto simp: getRelationship_def getRelationshipKey_commute)

theorem getRelationship_symmetric_witness:
  "getRelationship (js ''player'') (js ''npc1'') (world_with (rel_with 90 50)) = Some (rel_with 90 50) \<and>
   getRelationship (js ''npc1'') (js ''player'') (world_with (rel_with 90 50)) = Some (rel_with 90 50) \<and>
   getRelationship (js ''npc1'') (js ''npc1'') (world_with (rel_with 90 50)) = None"
  using getRelationship_symmetric [of "js ''player''" "js ''npc1''" "world_with (rel_with 90 50)"]
        getRelationship_symmetric [of "js ''npc1''" "js ''npc1''" "world_with (rel_with 90 50)"]
        get_world_with [of "rel_with 90 50"]
  by simp

text \<open>
  Claim C10. \<open>setRelationship(a, a, data)\<close> throws for every id and every data argument,
  before anything is stored, while \<open>getRelationship(a, a)\<close> returns null.
\<close>

theorem setRelationship_self_throws:
  "setRelationship a a d w = Inl SelfRelationshipError \<and> getRelationship a a w = None"
  by (simp add: setRelationship_def getRelationship_def)

theorem setRelationship_self_throws_witness:
  "setRelationship (js ''npc1'') (js ''npc1'') friend_data (world_with (rel_with 90 50))
     = Inl SelfRelationshipError \<and>
   getRelationship (js ''npc1'') (js ''npc1'') (world_with (rel_with 90 50)) = None"
  using setRelationship_self_throws [of "js ''npc1''" friend_data "world_with (rel_with 90 50)"]
  by simp

subsection \<open>The registry mirror\<close>

lemma updateAgent_relationships [simp]: "relationships (snd (updateAgent i u w)) = relationships w"
  by (simp add: updateAgent_def now_iso_def updatePlayer_def updateState_agents_def Let_def split: option.splits)



lemma updateAgentRelationships_relationships [simp]:
  "relationships (updateAgentRelationships a b r w) = relationships w"
  by (simp add: updateAgentRelationships_def Let_def split: option.splits)



lemma setRelationship_unfold:
  "a \<noteq> b \<Longrightarrow>
   setRelationship a b d w =
     Inr (completeRelationship d (clock w (ticks w)),
          updateAgentRelationships a b (completeRelationship d (clock w (ticks w)))
            (w\<lparr>ticks := Suc (ticks w),
               relationships := (relationships w)(getRelationshipKey a b \<mapsto> completeRelationship d (clock w (ticks w)))\<rparr>))"
  by (simp add: setRelationship_def now_iso_def Let_def)

lemma setRelationship_get:
  assumes "a \<noteq> b"
  shows "\<exists>w'. setRelationship a b d w = Inr (completeRelationship d (clock w (ticks w)), w') \<and>
              getRelationship a b w' = Some (completeRelationship d (clock w (ticks w)))"
  using assms by (simp add: setRelationship_unfold getRelationship_def)

lemma completeRelationship_as_data:
  "completeRelationship (as_data r) t =
     r\<lparr>updatedAt := t, createdAt := (if createdAt r = [] then t else createdAt r)\<rparr>"
  by (simp add: completeRelationship_def as_data_def spread_def Let_def)

lemma clamp100_idem [simp]: "clamp100 (clamp100 v) = clamp100 v"
  by (cases v) (simp_all add: clamp100_def)

lemma clamped_current_value:
  assumes "obj key \<noteq> None \<or> key \<notin> set Object_prototype_members"
  shows "clamp100 (plus_number (or_zero (get_property obj key)) d)
           = Num (max 0 (min 100 ((case obj key of Some (Num c) \<Rightarrow> c | _ \<Rightarrow> 0) + d)))"
proof (cases "obj key")
  case None
  with assms have "key \<notin> set Object_prototype_members" by simp
  with None show ?thesis
    by (simp add: get_property_def or_zero_def plus_number_def clamp100_def)
next
  case (Some v)
  then show ?thesis
    by (cases v) (simp_all add: get_property_def or_zero_def plus_number_def clamp100_def)
qed

lemma clamped_inherited_member:
  assumes "obj key = None" and "key \<in> set Object_prototype_members"
  shows "clamp100 (plus_number (or_zero (get_property obj key)) d) = NaN"
  using assms by (simp add: get_property_def or_zero_def plus_number_def clamp100_def)

lemma updateRelationshipFactor_result:
  assumes "getRelationship a b w = Some rel"
  shows "\<exists>r' w'. updateRelationshipFactor a b f v w = Inr (Some r', w') \<and>
                 getRelationship a b w' = Some r' \<and>
                 factors r' = (factors rel)(f \<mapsto> clamp100 v) \<and>
                 history r' = history rel \<and> r_type r' = r_type rel \<and> r_notes r' = r_notes rel"
proof -
  have ne: "a \<noteq> b" using assms by (rule getRelationship_Some_neq)
  let ?w1 = "snd (now_iso w)"
  let ?u = "rel\<lparr>factors := (factors rel)(f \<mapsto> clamp100 v), updatedAt := fst (now_iso w)\<rparr>"
  from setRelationship_get [OF ne, of "as_data ?u" ?w1]
  obtain w' where s: "setRelationship a b (as_data ?u) ?w1 =
        Inr (completeRelationship (as_data ?u) (clock ?w1 (ticks ?w1)), w')"
      and g: "getRelationship a b w' = Some (completeRelationship (as_data ?u) (clock ?w1 (ticks ?w1)))"
    by blast
  have "updateRelationshipFactor a b f v w =
          Inr (Some (completeRelationship (as_data ?u) (clock ?w1 (ticks ?w1))), w')"
    using assms s by (simp add: updateRelationshipFactor_def Let_def split_beta)
  then show ?thesis using g by (simp add: completeRelationship_as_data)
qed

lemma adjustRelationshipFactor_result:
  assumes "getRelationship a b w = Some rel"
  shows "\<exists>r' w'. adjustRelationshipFactor a b f delta w = Inr (Some r', w') \<and>
                 getRelationship a b w' = Some r' \<and>
                 factors r' = (factors rel)
                                (f \<mapsto> clamp100 (plus_number (or_zero (get_property (factors rel) f)) delta)) \<and>
                 history r' = history rel \<and> r_type r' = r_type rel \<and> r_notes r' = r_notes rel"
  using updateRelationshipFactor_result
          [OF assms, of f "clamp100 (plus_number (or_zero (get_property (factors rel) f)) delta)"] assms
  by (simp add: adjustRelationshipFactor_def Let_def)




subsection \<open>Factor adjustment\<close>


text \<open>
  Claim C2, as the code has it. On a stored relationship,
  \<open>adjustRelationshipFactor(a, b, factor, delta)\<close> returns normally for every factor name and
  every delta and leaves every other factor as it was. When the factor is a property of the
  factors object itself, or is not the name of a member of \<open>Object.prototype\<close> (as none of
  the five names of \<open>RelationshipFactor\<close> is), the stored factor becomes
  \<open>max(0, min(100, current + delta))\<close>, where \<open>current\<close> is the previous value, or 0 when
  the factor was absent or \<open>NaN\<close>; so it lies in \<open>[0, 100]\<close>, and trust 90 adjusted by 1000
  gives 100.
\<close>

theorem adjustRelationshipFactor_clamps:
  assumes "getRelationship a b w = Some rel"
  shows "\<exists>rel' w'. adjustRelationshipFactor a b f delta w = Inr (Some rel', w') \<and>
           getRelationship a b w' = Some rel' \<and>
           (\<forall>g. g \<noteq> f \<longrightarrow> factors rel' g = factors rel g) \<and>
           (f \<in> {TRUST, INTIMACY, RESPECT, LOYALTY, DEPENDENCY} \<longrightarrow> f \<notin> set Object_prototype_members) \<and>
           (factors rel f \<noteq> None \<or> f \<notin> set Object_prototype_members \<longrightarrow>
              factors rel' f = Some (Num (max 0 (min 100
                                 ((case factors rel f of Some (Num c) \<Rightarrow> c | _ \<Rightarrow> 0) + delta)))) \<and>
              (\<exists>v. factors rel' f = Some (Num v) \<and> 0 \<le> v \<and> v \<le> 100) \<and>
              (factors rel f = Some (Num 90) \<and> delta = 1000 \<longrightarrow> factors rel' f = Some (Num 100)))"
proof -
  from adjustRelationshipFactor_result [OF assms, of f delta]
  obtain r' w' where r: "adjustRelationshipFactor a b f delta w = Inr (Some r', w')"
     "getRelationship a b w' = Some r'"
     "factors r' = (factors rel)(f \<mapsto> clamp100 (plus_number (or_zero (get_property (factors rel) f)) delta))"
    by blast
  have o: "\<forall>g. g \<noteq> f \<longrightarrow> factors r' g = factors rel g"
    using r(3) by simp
  have n: "f \<in> {TRUST, INTIMACY, RESPECT, LOYALTY, DEPENDENCY} \<longrightarrow> f \<notin> set Object_prototype_members"
    using factor_names_own by auto
  have v: "factors rel f \<noteq> None \<or> f \<notin> set Object_prototype_members \<longrightarrow>
              factors r' f = Some (Num (max 0 (min 100
                                 ((case factors rel f of Some (Num c) \<Rightarrow> c | _ \<Rightarrow> 0) + delta))))"
    using r(3) clamped_current_value [of "factors rel" f delta] by simp
  have c: "factors rel f \<noteq> None \<or> f \<notin> set Object_prototype_members \<longrightarrow>
              factors r' f = Some (Num (max 0 (min 100
                                 ((case factors rel f of Some (Num c) \<Rightarrow> c | _ \<Rightarrow> 0) + delta)))) \<and>
              (\<exists>v. factors r' f = Some (Num v) \<and> 0 \<le> v \<and> v \<le> 100) \<and>
              (factors rel f = Some (Num 90) \<and> delta = 1000 \<longrightarrow> factors r' f = Some (Num 100))"
    using v by auto
  show ?thesis
    apply (rule exI [of _ r'])
    apply (rule exI [of _ w'])
    using r(1,2) o n c by (intro conjI) assumption+
qed

theorem adjustRelationshipFactor_clamps_witness:
  "getRelationship (js ''player'') (js ''npc1'') (world_with (rel_with 90 50)) = Some (rel_with 90 50) \<and>
   factors (rel_with 90 50) TRUST = Some (Num 90) \<and>
   TRUST \<notin> set Object_prototype_members \<and>
   (\<exists>rel' w'. adjustRelationshipFactor (js ''player'') (js ''npc1'') TRUST 1000 (world_with (rel_with 90 50))
                  = Inr (Some rel', w') \<and>
              getRelationship (js ''player'') (js ''npc1'') w' = Some rel' \<and>
              factors rel' TRUST = Some (Num 100) \<and>
              factors rel' RESPECT = Some (Num 50))"
proof -
  have f: "factors (rel_with 90 50) TRUST = Some (Num 90)"
    by (simp add: rel_with_def factor_names_distinct)
  have p: "factors (rel_with 90 50) RESPECT = Some (Num 50)"
    by (simp add: rel_with_def factor_names_distinct)
  have n: "TRUST \<notin> set Object_prototype_members" by (simp add: factor_names_own)
  have d: "RESPECT \<noteq> TRUST" by (simp add: factor_names_distinct)
  from adjustRelationshipFactor_clamps [of _ _ _ _ TRUST 1000, OF get_world_with [of "rel_with 90 50"]]
  obtain rel' w' where r:
     "adjustRelationshipFactor (js ''player'') (js ''npc1'') TRUST 1000 (world_with (rel_with 90 50))
        = Inr (Some rel', w')"
     "getRelationship (js ''player'') (js ''npc1'') w' = Some rel'"
     "\<forall>g. g \<noteq> TRUST \<longrightarrow> factors rel' g = factors (rel_with 90 50) g"
     "factors (rel_with 90 50) TRUST \<noteq> None \<or> TRUST \<notin> set Object_prototype_members \<longrightarrow>
        (factors (rel_with 90 50) TRUST = Some (Num 90) \<and> (1000::int) = 1000 \<longrightarrow>
           factors rel' TRUST = Some (Num 100))"
    by blast
  have 1: "factors rel' TRUST = Some (Num 100)" using r(4) f by simp
  have 2: "factors rel' RESPECT = Some (Num 50)" using r(3) d p by simp
  show ?thesis using get_world_with f n r(1,2) 1 2 by blast
qed

text \<open>
  The claim as stated fails for a factor name that the factors object does not own and
  \<open>Object.prototype\<close> has: \<open>factors[factor] || 0\<close> is then the inherited function, the sum is
  not a number, and \<open>NaN\<close> is stored, which is outside \<open>[0, 100]\<close>.
\<close>

theorem adjustRelationshipFactor_inherited_counterexample:
  "getRelationship (js ''player'') (js ''npc1'') (world_with (rel_with 90 50)) = Some (rel_with 90 50) \<and>
   factors (rel_with 90 50) (js ''toString'') = None \<and>
   map_sum id (\<lambda>(r, w'). (map_option (\<lambda>r'. factors r' (js ''toString'')) r,
                           map_option (\<lambda>r'. factors r' (js ''toString''))
                                      (getRelationship (js ''player'') (js ''npc1'') w')))
      (adjustRelationshipFactor (js ''player'') (js ''npc1'') (js ''toString'') 5 (world_with (rel_with 90 50)))
     = Inr (Some (Some NaN), Some (Some NaN)) \<and>
   NaN \<noteq> Num (max 0 (min 100 (0 + 5)))"
proof -
  have a: "factors (rel_with 90 50) (js ''toString'') = None"
    by (simp add: rel_with_def TRUST_def INTIMACY_def RESPECT_def js_def)
  have m: "js ''toString'' \<in> set Object_prototype_members"
    by (simp add: Object_prototype_members_def)
  from adjustRelationshipFactor_result [OF get_world_with [of "rel_with 90 50"], of "js ''toString''" 5]
  obtain r' w' where r:
     "adjustRelationshipFactor (js ''player'') (js ''npc1'') (js ''toString'') 5 (world_with (rel_with 90 50))
        = Inr (Some r', w')"
     "getRelationship (js ''player'') (js ''npc1'') w' = Some r'"
     "factors r' = (factors (rel_with 90 50))
                     (js ''toString'' \<mapsto> clamp100 (plus_number (or_zero
                         (get_property (factors (rel_with 90 50)) (js ''toString''))) 5))"
    by blast
  have "factors r' (js ''toString'') = Some NaN"
    using r(3) a m clamped_inherited_member [of "factors (rel_with 90 50)" "js ''toString''" 5] by simp
  then show ?thesis using get_world_with a r(1,2) by simp
qed

subsection \<open>The effect of an action\<close>







text \<open>
  Claim C3. An action whose target is the actor, whose target type is not \<open>character\<close>, whose
  target id is unset, or whose pair has no relationship in the Trust Map makes
  \<open>processActionEffect\<close> return null with the whole state as it was.
\<close>

theorem processActionEffect_noop:
  assumes "targetId act = Some (actorId act) \<or> targetType act \<noteq> T_CHARACTER \<or>
           targetId_falsy (targetId act) \<or>
           (\<forall>t. targetId act = Some t \<longrightarrow> getRelationship (actorId act) t w = None)"
  shows "processActionEffect act w = Inr (None, w)"
  using assms by (auto simp: processActionEffect_def targetId_falsy_def Let_def split: option.splits)

theorem processActionEffect_noop_witness:
  "processActionEffect (thanks_action\<lparr>targetId := Some (js ''player'')\<rparr>) (world_with (rel_with 10 50))
     = Inr (None, world_with (rel_with 10 50)) \<and>
   processActionEffect (thanks_action\<lparr>targetType := T_ENVIRONMENT\<rparr>) (world_with (rel_with 10 50))
     = Inr (None, world_with (rel_with 10 50)) \<and>
   processActionEffect (thanks_action\<lparr>targetId := Some (js ''npc2'')\<rparr>) (world_with (rel_with 10 50))
     = Inr (None, world_with (rel_with 10 50))"
proof -
  have 1: "targetId (thanks_action\<lparr>targetId := Some (js ''player'')\<rparr>)
             = Some (actorId (thanks_action\<lparr>targetId := Some (js ''player'')\<rparr>))"
    by (simp add: thanks_action_def)
  have 2: "targetType (thanks_action\<lparr>targetType := T_ENVIRONMENT\<rparr>) \<noteq> T_CHARACTER"
    by simp
  have 3: "\<forall>t. targetId (thanks_action\<lparr>targetId := Some (js ''npc2'')\<rparr>) = Some t \<longrightarrow>
             getRelationship (actorId (thanks_action\<lparr>targetId := Some (js ''npc2'')\<rparr>)) t (world_with (rel_with 10 50)) = None"
    by (simp add: thanks_action_def getRelationship_def getRelationshipKey_def sort2_def world_with_def js_def)
  show ?thesis
    using processActionEffect_noop [of "thanks_action\<lparr>targetId := Some (js ''player'')\<rparr>" "world_with (rel_with 10 50)"]
          processActionEffect_noop [of "thanks_action\<lparr>targetType := T_ENVIRONMENT\<rparr>" "world_with (rel_with 10 50)"]
          processActionEffect_noop [of "thanks_action\<lparr>targetId := Some (js ''npc2'')\<rparr>" "world_with (rel_with 10 50)"]
          1 2 3
    by blast
qed


section \<open>Properties of the Agent Response Policy\<close>

lemma above_iff:
  assumes "0 < N"
  shows "(real k / real N > 7 / 10) = (7 * N div 10 < k)"
proof -
  have n: "0 < real N" using assms by simp
  have "(7 / 10 < real k / real N) = (7 / 10 * real N < real k)"
    using n by (simp only: pos_less_divide_eq)
  also have "\<dots> = (real (7 * N) < real (k * 10))" by simp
  also have "\<dots> = (7 * N < k * 10)" by (rule of_nat_less_iff)
  also have "\<dots> = (7 * N div 10 < k)" by (simp add: div_less_iff_less_mult)
  finally show ?thesis .
qed

lemma count_above:
  assumes "0 < N"
  shows "length (filter (\<lambda>u. u > 7 / 10) (draws N)) = N - Suc (7 * N div 10)"
proof -
  have "length (filter (\<lambda>u. u > 7 / 10) (draws N))
          = length (filter ((\<lambda>u. u > 7 / 10) \<circ> (\<lambda>k. real k / real N)) [0..<N])"
    by (simp only: draws_def filter_map length_map)
  also have "(\<lambda>u. u > 7 / 10) \<circ> (\<lambda>k. real k / real N) = (\<lambda>k. 7 * N div 10 < k)"
    by (rule ext) (simp only: o_apply above_iff [OF assms])
  also have "length (filter (\<lambda>k. 7 * N div 10 < k) [0..<N]) = card {k. 7 * N div 10 < k \<and> k < N}"
  proof -
    have "{x. 7 * N div 10 < x} \<inter> set [0..<N] = {k. 7 * N div 10 < k \<and> k < N}" by auto
    then show ?thesis by (simp add: distinct_length_filter)
  qed
  also have "{k. 7 * N div 10 < k \<and> k < N} = {7 * N div 10 <..< N}" by auto
  also have "card {7 * N div 10 <..< N} = N - Suc (7 * N div 10)" by simp
  finally show ?thesis .
qed

lemma count_not_above:
  assumes "0 < N"
  shows "length (filter (\<lambda>u. \<not> u > 7 / 10) (draws N)) = Suc (7 * N div 10)"
proof -
  have "length (filter (\<lambda>u. u > 7 / 10) (draws N)) + length (filter (\<lambda>u. \<not> u > 7 / 10) (draws N))
          = length (draws N)"
    by (rule sum_length_filter_compl)
  moreover have "length (draws N) = N" by (simp add: draws_def)
  moreover have "7 * N div 10 < N" using assms by (simp add: div_less_iff_less_mult)
  ultimately show ?thesis unfolding count_above [OF assms] by linarith
qed

lemma floor_bounds:
  "real (7 * N div 10) \<le> 7 * real N / 10 \<and> 7 * real N / 10 - 1 < real (7 * N div 10)"
proof -
  have "10 * (7 * N div 10) \<le> 7 * N" by simp
  then have "real (10 * (7 * N div 10)) \<le> real (7 * N)" by (simp only: of_nat_le_iff)
  then have 1: "real (7 * N div 10) \<le> 7 * real N / 10" by simp
  have "7 * N < 10 * (7 * N div 10) + 10"
    using dividend_less_times_div [of 10 "7 * N"] by simp
  then have "real (7 * N) < real (10 * (7 * N div 10) + 10)" by (simp only: of_nat_less_iff)
  then have 2: "7 * real N / 10 - 1 < real (7 * N div 10)" by simp
  show ?thesis using 1 2 by simp
qed

lemma probability_above:
  assumes "0 < N"
  shows "3 / 10 - 1 / real N \<le> probability N (\<lambda>u. u > 7 / 10) \<and> probability N (\<lambda>u. u > 7 / 10) \<le> 3 / 10"
proof -
  define q where "q = 7 * N div 10"
  have lt: "q < N" unfolding q_def using assms by (simp add: div_less_iff_less_mult)
  have "probability N (\<lambda>u. u > 7 / 10) = real (N - Suc q) / real N"
    unfolding probability_def count_above [OF assms] q_def ..
  also have "real (N - Suc q) = real N - 1 - real q"
    using lt by (simp add: of_nat_diff)
  finally have c: "probability N (\<lambda>u. u > 7 / 10) = (real N - 1 - real q) / real N" .
  have q1: "real q \<le> 7 * real N / 10" and q2: "7 * real N / 10 - 1 < real q"
    unfolding q_def using floor_bounds [of N] by simp_all
  have n: "0 < real N" using assms by simp
  have "(3 / 10 - 1 / real N) * real N \<le> real N - 1 - real q"
    using q1 n by (simp add: field_simps)
  then have lo: "3 / 10 - 1 / real N \<le> (real N - 1 - real q) / real N"
    using n by (simp only: pos_le_divide_eq)
  have "real N - 1 - real q \<le> 3 / 10 * real N"
    using q2 by (simp add: field_simps)
  then have hi: "(real N - 1 - real q) / real N \<le> 3 / 10"
    using n by (simp only: pos_divide_le_eq)
  show ?thesis unfolding c using lo hi by (rule conjI)
qed

lemma probability_not_above:
  assumes "0 < N"
  shows "7 / 10 \<le> probability N (\<lambda>u. \<not> u > 7 / 10) \<and> probability N (\<lambda>u. \<not> u > 7 / 10) \<le> 7 / 10 + 1 / real N"
proof -
  define q where "q = 7 * N div 10"
  have "probability N (\<lambda>u. \<not> u > 7 / 10) = real (Suc q) / real N"
    unfolding probability_def count_not_above [OF assms] q_def ..
  also have "real (Suc q) = real q + 1" by simp
  finally have c: "probability N (\<lambda>u. \<not> u > 7 / 10) = (real q + 1) / real N" .
  have q1: "real q \<le> 7 * real N / 10" and q2: "7 * real N / 10 - 1 < real q"
    unfolding q_def using floor_bounds [of N] by simp_all
  have n: "0 < real N" using assms by simp
  have "7 / 10 * real N \<le> real q + 1"
    using q2 by (simp add: field_simps)
  then have lo: "7 / 10 \<le> (real q + 1) / real N"
    using n by (simp only: pos_le_divide_eq)
  have "real q + 1 \<le> (7 / 10 + 1 / real N) * real N"
    using q1 n by (simp add: field_simps)
  then have hi: "(real q + 1) / real N \<le> 7 / 10 + 1 / real N"
    using n by (simp only: pos_divide_le_eq)
  show ?thesis unfolding c using lo hi by (rule conjI)
qed

lemma low_trust_branch:
  assumes "\<not> (cx_type (ctx_action ctx) = DIALOGUE \<and> cx_targetId (ctx_action ctx) = Some (ca_id (ctx_agent ctx)))"
      and "\<not> ca_emotionIntensity (ctx_agent ctx) > 70"
      and "\<not> (js_includes (cx_content (ctx_action ctx)) kw_qingqiu \<or>
              js_includes (cx_content (ctx_action ctx)) kw_bangzhu)"
      and "low_trust (ctx_relationship ctx)"
  shows "determineResponseType ctx u = (if u > 7 / 10 then R_REJECTION else R_DIALOGUE)"
  using assms by (auto simp: determineResponseType_def)

lemma low_trust_events:
  assumes "\<And>u. determineResponseType ctx u = (if u > 7 / 10 then R_REJECTION else R_DIALOGUE)"
  shows "(\<lambda>u. determineResponseType ctx u = R_REJECTION) = (\<lambda>u. u > 7 / 10)"
    and "(\<lambda>u. determineResponseType ctx u = R_DIALOGUE) = (\<lambda>u. \<not> u > 7 / 10)"
  by (rule ext, simp add: assms)+

lemma low_trust_context_branch:
  "determineResponseType low_trust_context u = (if u > 7 / 10 then R_REJECTION else R_DIALOGUE)"
  by (rule low_trust_branch)
     (simp_all add: low_trust_context_def low_trust_def kw_qingqiu_def kw_bangzhu_def js_def)

text \<open>
  Claim C5, as the code has it. \<open>_determineResponseType\<close> is an ordered decision list: a
  dialogue addressed to this agent gives DIALOGUE; else an emotion intensity above 70 gives
  EMOTION; else a request or help keyword in the content gives DECISION; else, when there
  is a relationship with trust below 20, the result is REJECTION exactly when the random
  draw exceeds 0.7 and DIALOGUE otherwise, so that over a uniform draw of any resolution
  \<open>N\<close> REJECTION has probability between \<open>3/10 - 1/N\<close> and \<open>3/10\<close> and DIALOGUE between
  \<open>7/10\<close> and \<open>7/10 + 1/N\<close>; else the result is DIALOGUE.
\<close>

theorem determineResponseType_decision_list:
  "(cx_type (ctx_action ctx) = DIALOGUE \<and> cx_targetId (ctx_action ctx) = Some (ca_id (ctx_agent ctx))
      \<longrightarrow> determineResponseType ctx u = R_DIALOGUE) \<and>
   (\<not> (cx_type (ctx_action ctx) = DIALOGUE \<and> cx_targetId (ctx_action ctx) = Some (ca_id (ctx_agent ctx))) \<and>
    ca_emotionIntensity (ctx_agent ctx) > 70
      \<longrightarrow> determineResponseType ctx u = R_EMOTION) \<and>
   (\<not> (cx_type (ctx_action ctx) = DIALOGUE \<and> cx_targetId (ctx_action ctx) = Some (ca_id (ctx_agent ctx))) \<and>
    \<not> ca_emotionIntensity (ctx_agent ctx) > 70 \<and>
    (js_includes (cx_content (ctx_action ctx)) kw_qingqiu \<or> js_includes (cx_content (ctx_action ctx)) kw_bangzhu)
      \<longrightarrow> determineResponseType ctx u = R_DECISION) \<and>
   (\<not> (cx_type (ctx_action ctx) = DIALOGUE \<and> cx_targetId (ctx_action ctx) = Some (ca_id (ctx_agent ctx))) \<and>
    \<not> ca_emotionIntensity (ctx_agent ctx) > 70 \<and>
    \<not> (js_includes (cx_content (ctx_action ctx)) kw_qingqiu \<or> js_includes (cx_content (ctx_action ctx)) kw_bangzhu) \<and>
    low_trust (ctx_relationship ctx)
      \<longrightarrow> (determineResponseType ctx u = R_REJECTION \<longleftrightarrow> u > 7 / 10) \<and>
          (determineResponseType ctx u = R_DIALOGUE \<longleftrightarrow> u \<le> 7 / 10) \<and>
          (\<forall>N. 0 < N \<longrightarrow>
             3 / 10 - 1 / real N \<le> probability N (\<lambda>r. determineResponseType ctx r = R_REJECTION) \<and>
             probability N (\<lambda>r. determineResponseType ctx r = R_REJECTION) \<le> 3 / 10 \<and>
             7 / 10 \<le> probability N (\<lambda>r. determineResponseType ctx r = R_DIALOGUE) \<and>
             probability N (\<lambda>r. determineResponseType ctx r = R_DIALOGUE) \<le> 7 / 10 + 1 / real N)) \<and>
   (\<not> (cx_type (ctx_action ctx) = DIALOGUE \<and> cx_targetId (ctx_action ctx) = Some (ca_id (ctx_agent ctx))) \<and>
    \<not> ca_emotionIntensity (ctx_agent ctx) > 70 \<and>
    \<not> (js_includes (cx_content (ctx_action ctx)) kw_qingqiu \<or> js_includes (cx_content (ctx_action ctx)) kw_bangzhu) \<and>
    \<not> low_trust (ctx_relationship ctx)
      \<longrightarrow> determineResponseType ctx u = R_DIALOGUE)"
proof (intro conjI)
  show "cx_type (ctx_action ctx) = DIALOGUE \<and> cx_targetId (ctx_action ctx) = Some (ca_id (ctx_agent ctx))
      \<longrightarrow> determineResponseType ctx u = R_DIALOGUE"
    by (simp add: determineResponseType_def)
  show "\<not> (cx_type (ctx_action ctx) = DIALOGUE \<and> cx_targetId (ctx_action ctx) = Some (ca_id (ctx_agent ctx))) \<and>
    ca_emotionIntensity (ctx_agent ctx) > 70
      \<longrightarrow> determineResponseType ctx u = R_EMOTION"
    by (simp add: determineResponseType_def)
  show "\<not> (cx_type (ctx_action ctx) = DIALOGUE \<and> cx_targetId (ctx_action ctx) = Some (ca_id (ctx_agent ctx))) \<and>
    \<not> ca_emotionIntensity (ctx_agent ctx) > 70 \<and>
    (js_includes (cx_content (ctx_action ctx)) kw_qingqiu \<or> js_includes (cx_content (ctx_action ctx)) kw_bangzhu)
      \<longrightarrow> determineResponseType ctx u = R_DECISION"
    by (simp add: determineResponseType_def)
  show "\<not> (cx_type (ctx_action ctx) = DIALOGUE \<and> cx_targetId (ctx_action ctx) = Some (ca_id (ctx_agent ctx))) \<and>
    \<not> ca_emotionIntensity (ctx_agent ctx) > 70 \<and>
    \<not> (js_includes (cx_content (ctx_action ctx)) kw_qingqiu \<or> js_includes (cx_content (ctx_action ctx)) kw_bangzhu) \<and>
    \<not> low_trust (ctx_relationship ctx)
      \<longrightarrow> determineResponseType ctx u = R_DIALOGUE"
    by (simp add: determineResponseType_def)
  show "\<not> (cx_type (ctx_action ctx) = DIALOGUE \<and> cx_targetId (ctx_action ctx) = Some (ca_id (ctx_agent ctx))) \<and>
    \<not> ca_emotionIntensity (ctx_agent ctx) > 70 \<and>
    \<not> (js_includes (cx_content (ctx_action ctx)) kw_qingqiu \<or> js_includes (cx_content (ctx_action ctx)) kw_bangzhu) \<and>
    low_trust (ctx_relationship ctx)
      \<longrightarrow> (determineResponseType ctx u = R_REJECTION \<longleftrightarrow> u > 7 / 10) \<and>
          (determineResponseType ctx u = R_DIALOGUE \<longleftrightarrow> u \<le> 7 / 10) \<and>
          (\<forall>N. 0 < N \<longrightarrow>
             3 / 10 - 1 / real N \<le> probability N (\<lambda>r. determineResponseType ctx r = R_REJECTION) \<and>
             probability N (\<lambda>r. determineResponseType ctx r = R_REJECTION) \<le> 3 / 10 \<and>
             7 / 10 \<le> probability N (\<lambda>r. determineResponseType ctx r = R_DIALOGUE) \<and>
             probability N (\<lambda>r. determineResponseType ctx r = R_DIALOGUE) \<le> 7 / 10 + 1 / real N)"
  proof (intro impI)
    assume a: "\<not> (cx_type (ctx_action ctx) = DIALOGUE \<and> cx_targetId (ctx_action ctx) = Some (ca_id (ctx_agent ctx))) \<and>
      \<not> ca_emotionIntensity (ctx_agent ctx) > 70 \<and>
      \<not> (js_includes (cx_content (ctx_action ctx)) kw_qingqiu \<or> js_includes (cx_content (ctx_action ctx)) kw_bangzhu) \<and>
      low_trust (ctx_relationship ctx)"
    have b: "\<And>r. determineResponseType ctx r = (if r > 7 / 10 then R_REJECTION else R_DIALOGUE)"
      using a by (intro low_trust_branch) simp_all
    have 1: "determineResponseType ctx u = R_REJECTION \<longleftrightarrow> u > 7 / 10"
      by (simp only: b) simp
    have 2: "determineResponseType ctx u = R_DIALOGUE \<longleftrightarrow> u \<le> 7 / 10"
      by (simp only: b) (simp add: not_less)
    have 3: "\<forall>N. 0 < N \<longrightarrow>
             3 / 10 - 1 / real N \<le> probability N (\<lambda>r. determineResponseType ctx r = R_REJECTION) \<and>
             probability N (\<lambda>r. determineResponseType ctx r = R_REJECTION) \<le> 3 / 10 \<and>
             7 / 10 \<le> probability N (\<lambda>r. determineResponseType ctx r = R_DIALOGUE) \<and>
             probability N (\<lambda>r. determineResponseType ctx r = R_DIALOGUE) \<le> 7 / 10 + 1 / real N"
      unfolding low_trust_events [of ctx, OF b]
      using probability_above probability_not_above by blast
    show "(determineResponseType ctx u = R_REJECTION \<longleftrightarrow> u > 7 / 10) \<and>
          (determineResponseType ctx u = R_DIALOGUE \<longleftrightarrow> u \<le> 7 / 10) \<and>
          (\<forall>N. 0 < N \<longrightarrow>
             3 / 10 - 1 / real N \<le> probability N (\<lambda>r. determineResponseType ctx r = R_REJECTION) \<and>
             probability N (\<lambda>r. determineResponseType ctx r = R_REJECTION) \<le> 3 / 10 \<and>
             7 / 10 \<le> probability N (\<lambda>r. determineResponseType ctx r = R_DIALOGUE) \<and>
             probability N (\<lambda>r. determineResponseType ctx r = R_DIALOGUE) \<le> 7 / 10 + 1 / real N)"
      using 1 2 3 by (intro conjI)
  qed
qed

theorem determineResponseType_decision_list_witness:
  "low_trust (ctx_relationship low_trust_context) \<and>
   determineResponseType low_trust_context (3 / 4) = R_REJECTION \<and>
   determineResponseType low_trust_context (7 / 10) = R_DIALOGUE \<and>
   299 / 1000 \<le> probability 1000 (\<lambda>r. determineResponseType low_trust_context r = R_REJECTION) \<and>
   probability 1000 (\<lambda>r. determineResponseType low_trust_context r = R_REJECTION) \<le> 3 / 10 \<and>
   7 / 10 \<le> probability 1000 (\<lambda>r. determineResponseType low_trust_context r = R_DIALOGUE)"
proof -
  have h: "\<not> (cx_type (ctx_action low_trust_context) = DIALOGUE \<and>
              cx_targetId (ctx_action low_trust_context) = Some (ca_id (ctx_agent low_trust_context))) \<and>
           \<not> ca_emotionIntensity (ctx_agent low_trust_context) > 70 \<and>
           \<not> (js_includes (cx_content (ctx_action low_trust_context)) kw_qingqiu \<or>
               js_includes (cx_content (ctx_action low_trust_context)) kw_bangzhu) \<and>
           low_trust (ctx_relationship low_trust_context)"
    by (simp add: low_trust_context_def low_trust_def kw_qingqiu_def kw_bangzhu_def js_def)
  have p: "(0::nat) < 1000" by simp
  from determineResponseType_decision_list [of low_trust_context "3 / 4"] h
  have a: "determineResponseType low_trust_context (3 / 4) = R_REJECTION"
    and n: "\<forall>N. 0 < N \<longrightarrow>
             3 / 10 - 1 / real N \<le> probability N (\<lambda>r. determineResponseType low_trust_context r = R_REJECTION) \<and>
             probability N (\<lambda>r. determineResponseType low_trust_context r = R_REJECTION) \<le> 3 / 10 \<and>
             7 / 10 \<le> probability N (\<lambda>r. determineResponseType low_trust_context r = R_DIALOGUE) \<and>
             probability N (\<lambda>r. determineResponseType low_trust_context r = R_DIALOGUE) \<le> 7 / 10 + 1 / real N"
    by simp_all
  from determineResponseType_decision_list [of low_trust_context "7 / 10"] h
  have b: "determineResponseType low_trust_context (7 / 10) = R_DIALOGUE"
    by simp
  from n p have c: "3 / 10 - 1 / real (1000::nat) \<le> probability 1000 (\<lambda>r. determineResponseType low_trust_context r = R_REJECTION) \<and>
             probability 1000 (\<lambda>r. determineResponseType low_trust_context r = R_REJECTION) \<le> 3 / 10 \<and>
             7 / 10 \<le> probability 1000 (\<lambda>r. determineResponseType low_trust_context r = R_DIALOGUE)"
    by blast
  have "3 / 10 - 1 / real (1000::nat) = 299 / 1000" by simp
  with c h a b show ?thesis by simp
qed

text \<open>
  The claim as stated gives DIALOGUE 30\% and REJECTION 70\%; on the low-trust branch the
  draw \<open>1/2\<close> gives DIALOGUE, and of 1000 equally spaced draws 701 give DIALOGUE and 299
  give REJECTION.
\<close>

theorem determineResponseType_probability_counterexample:
  "determineResponseType low_trust_context (1 / 2) = R_DIALOGUE \<and>
   probability 1000 (\<lambda>r. determineResponseType low_trust_context r = R_DIALOGUE) = 701 / 1000 \<and>
   probability 1000 (\<lambda>r. determineResponseType low_trust_context r = R_REJECTION) = 299 / 1000"
proof -
  have p: "(0::nat) < 1000" by simp
  have 1: "determineResponseType low_trust_context (1 / 2) = R_DIALOGUE"
    by (simp add: low_trust_context_branch)
  have 2: "probability 1000 (\<lambda>r. determineResponseType low_trust_context r = R_DIALOGUE) = 701 / 1000"
    unfolding low_trust_events [of low_trust_context, OF low_trust_context_branch]
              probability_def count_not_above [OF p]
    by simp
  have 3: "probability 1000 (\<lambda>r. determineResponseType low_trust_context r = R_REJECTION) = 299 / 1000"
    unfolding low_trust_events [of low_trust_context, OF low_trust_context_branch]
              probability_def count_above [OF p]
    by simp
  show ?thesis using 1 2 3 by (intro conjI)
qed


section \<open>Properties of the History Log\<close>

lemma completeEntry_record:
  "completeEntry g t e =
     e\<lparr> e_id := Some (case e_id e of None \<Rightarrow> g | Some i \<Rightarrow> i),
        e_timestamp := Some (case e_timestamp e of None \<Rightarrow> t | Some s \<Rightarrow> s) \<rparr>"
  by (cases "e_id e"; cases "e_timestamp e") (simp_all add: completeEntry_def)

lemma addEntry_history:
  "hm_history (snd (addEntry g t e hm)) =
     (if length (hm_history hm) < maxHistoryLength hm
      then hm_history hm @ [completeEntry g t e]
      else shift (hm_history hm @ [completeEntry g t e]))"
  by (simp add: addEntry_def Let_def)

lemma addEntry_max [simp]: "maxHistoryLength (snd (addEntry g t e hm)) = maxHistoryLength hm"
  by (simp add: addEntry_def Let_def)

lemma addEntries_max [simp]: "maxHistoryLength (addEntries calls hm) = maxHistoryLength hm"
  by (induction calls hm rule: addEntries.induct) simp_all

lemma shift_snoc_length: "length (shift (xs @ [x])) = length xs"
  by (cases xs) (simp_all add: shift_def)

lemma addEntry_bounded:
  "length (hm_history hm) \<le> maxHistoryLength hm \<Longrightarrow>
   length (hm_history (snd (addEntry g t e hm))) \<le> maxHistoryLength hm"
  by (simp add: addEntry_history shift_snoc_length)

lemma addEntries_bounded:
  "length (hm_history hm) \<le> maxHistoryLength hm \<Longrightarrow>
   length (hm_history (addEntries calls hm)) \<le> maxHistoryLength hm"
proof (induction calls hm rule: addEntries.induct)
  case (1 hm)
  then show ?case by simp
next
  case (2 g t e calls hm)
  have "length (hm_history (snd (addEntry g t e hm))) \<le> maxHistoryLength (snd (addEntry g t e hm))"
    using "2.prems" by (simp add: addEntry_bounded)
  from "2.IH" [OF this] show ?case by simp
qed

lemma addEntry_window:
  assumes "length (hm_history hm) \<le> maxHistoryLength hm"
  shows "drop (length (hm_history (snd (addEntry g t e hm)) @ rest) - maxHistoryLength hm)
              (hm_history (snd (addEntry g t e hm)) @ rest)
         = drop (length (hm_history hm @ completeEntry g t e # rest) - maxHistoryLength hm)
              (hm_history hm @ completeEntry g t e # rest)"
proof (cases "length (hm_history hm) < maxHistoryLength hm")
  case True
  then show ?thesis by (simp add: addEntry_history)
next
  case False
  with assms have full: "length (hm_history hm) = maxHistoryLength hm" by simp
  show ?thesis
  proof (cases "hm_history hm")
    case Nil
    with full have m: "maxHistoryLength hm = 0" by simp
    show ?thesis by (simp add: addEntry_history shift_def Nil m)
  next
    case (Cons x xs)
    with full have m: "maxHistoryLength hm = Suc (length xs)" by simp
    show ?thesis by (simp add: addEntry_history shift_def Cons m)
  qed
qed

lemma addEntries_window:
  "length (hm_history hm) \<le> maxHistoryLength hm \<Longrightarrow>
   hm_history (addEntries calls hm)
     = drop (length (hm_history hm @ map (\<lambda>(g, t, e). completeEntry g t e) calls) - maxHistoryLength hm)
            (hm_history hm @ map (\<lambda>(g, t, e). completeEntry g t e) calls)"
proof (induction calls hm rule: addEntries.induct)
  case (1 hm)
  then show ?case by simp
next
  case (2 g t e calls hm)
  let ?ins = "map (\<lambda>(g, t, e). completeEntry g t e) calls"
  have b: "length (hm_history (snd (addEntry g t e hm))) \<le> maxHistoryLength (snd (addEntry g t e hm))"
    using "2.prems" by (simp add: addEntry_bounded)
  have "hm_history (addEntries ((g, t, e) # calls) hm)
          = drop (length (hm_history (snd (addEntry g t e hm)) @ ?ins) - maxHistoryLength hm)
                 (hm_history (snd (addEntry g t e hm)) @ ?ins)"
    using "2.IH" [OF b] by simp
  also have "\<dots> = drop (length (hm_history hm @ completeEntry g t e # ?ins) - maxHistoryLength hm)
                       (hm_history hm @ completeEntry g t e # ?ins)"
    using "2.prems" by (rule addEntry_window)
  finally show ?case by simp
qed

lemma completeEntry_map:
  "map (\<lambda>(g, t, e). completeEntry g t e) calls
     = map (\<lambda>(g, t, e). e\<lparr> e_id := Some (case e_id e of None \<Rightarrow> g | Some i \<Rightarrow> i),
                           e_timestamp := Some (case e_timestamp e of None \<Rightarrow> t | Some s \<Rightarrow> s) \<rparr>) calls"
  by (simp add: completeEntry_record)

text \<open>
  Claim C7, as the code has it. On a log that holds at most \<open>maxHistoryLength\<close> entries, as
  the log does after \<open>clearHistory\<close> and after any calls of \<open>addEntry\<close> on such a log,
  \<open>maxHistoryLength + k\<close> calls of \<open>addEntry\<close> leave exactly \<open>maxHistoryLength\<close> entries: the
  records of the last \<open>maxHistoryLength\<close> calls in the order of the calls, each the entry
  passed in, with the generated id and the clock reading filled in where the entry has none;
  and each call returns the record it stores.
\<close>

theorem addEntries_fifo:
  assumes "length (hm_history hm) \<le> maxHistoryLength hm"
      and "length calls = maxHistoryLength hm + k"
  shows "length (hm_history (addEntries calls hm)) = maxHistoryLength hm \<and>
         hm_history (addEntries calls hm)
           = drop k (map (\<lambda>(g, t, e).
                            e\<lparr> e_id := Some (case e_id e of None \<Rightarrow> g | Some i \<Rightarrow> i),
                               e_timestamp := Some (case e_timestamp e of None \<Rightarrow> t | Some s \<Rightarrow> s) \<rparr>)
                         calls) \<and>
         maxHistoryLength (addEntries calls hm) = maxHistoryLength hm \<and>
         (\<forall>more. length (hm_history (addEntries more (addEntries calls hm))) \<le> maxHistoryLength hm) \<and>
         (\<forall>g t e. fst (addEntry g t e hm)
                    = e\<lparr> e_id := Some (case e_id e of None \<Rightarrow> g | Some i \<Rightarrow> i),
                         e_timestamp := Some (case e_timestamp e of None \<Rightarrow> t | Some s \<Rightarrow> s) \<rparr>) \<and>
         length (hm_history (clearHistory hm)) \<le> maxHistoryLength (clearHistory hm)"
proof -
  let ?ins = "map (\<lambda>(g, t, e). completeEntry g t e) calls"
  have len: "length ?ins = maxHistoryLength hm + k"
    using assms(2) by simp
  have "hm_history (addEntries calls hm)
          = drop (length (hm_history hm @ ?ins) - maxHistoryLength hm) (hm_history hm @ ?ins)"
    using assms(1) by (rule addEntries_window)
  also have "\<dots> = drop k ?ins"
    using len by simp
  finally have h: "hm_history (addEntries calls hm) = drop k ?ins" .
  have l: "length (hm_history (addEntries calls hm)) = maxHistoryLength hm"
    unfolding h using len by simp
  have b: "\<forall>more. length (hm_history (addEntries more (addEntries calls hm))) \<le> maxHistoryLength hm"
  proof
    fix more
    have "length (hm_history (addEntries calls hm)) \<le> maxHistoryLength (addEntries calls hm)"
      using l by simp
    from addEntries_bounded [OF this, of more]
    show "length (hm_history (addEntries more (addEntries calls hm))) \<le> maxHistoryLength hm"
      by simp
  qed
  have r: "\<forall>g t e. fst (addEntry g t e hm)
                    = e\<lparr> e_id := Some (case e_id e of None \<Rightarrow> g | Some i \<Rightarrow> i),
                         e_timestamp := Some (case e_timestamp e of None \<Rightarrow> t | Some s \<Rightarrow> s) \<rparr>"
    by (simp add: addEntry_def Let_def completeEntry_record)
  have c: "length (hm_history (clearHistory hm)) \<le> maxHistoryLength (clearHistory hm)"
    by (simp add: clearHistory_def)
  have m: "maxHistoryLength (addEntries calls hm) = maxHistoryLength hm" by simp
  show ?thesis
    using l h [unfolded completeEntry_map] m b r c by (intro conjI) assumption+
qed

theorem addEntries_fifo_witness:
  "length (hm_history small_log) \<le> maxHistoryLength small_log \<and>
   length three_calls = maxHistoryLength small_log + 1 \<and>
   hm_history (addEntries three_calls small_log)
     = [\<lparr> e_id = Some (js ''e2''), e_timestamp = Some 2, e_type = Some H_ACTION,
          e_actorId = Some (js ''player''), e_npcId = None, e_content = Some (js ''b'') \<rparr>,
        \<lparr> e_id = Some (js ''own''), e_timestamp = Some 3, e_type = Some H_ACTION,
          e_actorId = Some (js ''player''), e_npcId = None, e_content = Some (js ''c'') \<rparr>]"
proof -
  have 1: "length (hm_history small_log) \<le> maxHistoryLength small_log"
    by (simp add: small_log_def)
  have 2: "length three_calls = maxHistoryLength small_log + 1"
    by (simp add: small_log_def three_calls_def)
  from addEntries_fifo [OF 1 2, THEN conjunct2, THEN conjunct1] 1 2 show ?thesis
    by (simp add: three_calls_def action_entry_def)
qed

text \<open>
  The claim as stated fails on a log that holds more than \<open>maxHistoryLength\<close> entries:
  \<open>importHistory\<close> installs an exported log of three entries into a log of capacity 2, and
  after \<open>maxHistoryLength + 1\<close> calls of \<open>addEntry\<close> the log still has three entries.
\<close>

theorem addEntries_imported_counterexample:
  "importHistory (Array_of exported_entries) small_log
     = (True, small_log\<lparr>hm_history := exported_entries\<rparr>) \<and>
   maxHistoryLength (small_log\<lparr>hm_history := exported_entries\<rparr>) = 2 \<and>
   length three_calls = 2 + 1 \<and>
   length (hm_history (addEntries three_calls (small_log\<lparr>hm_history := exported_entries\<rparr>))) = 3 \<and>
   maxHistoryLength (addEntries three_calls (small_log\<lparr>hm_history := exported_entries\<rparr>)) = 2"
  by (simp add: importHistory_def small_log_def three_calls_def exported_entries_def
                addEntry_def Let_def shift_def)

section \<open>Properties of the Memory Store\<close>



lemma removeOldestMemory_max [simp]: "maxMemories (removeOldestMemory now mm) = maxMemories mm"
  by (simp add: removeOldestMemory_def deleteMemory_def split: prod.splits option.splits)








lemma addMemory_max [simp]: "maxMemories (snd (addMemory g c u n memory mm)) = maxMemories mm"
  by (simp add: addMemory_def Let_def)












section \<open>Properties of the action parser\<close>

lemma rx_end_simp [simp]: "rx [] s cap = (if s = [] then Some cap else None)"
  by (subst rx.simps) simp

lemma rx_Class_simps [simp]:
  "rx (Class p # r) [] cap = None"
  "rx (Class p # r) (c # cs) cap = (if p c then rx r cs cap else None)"
  by (subst rx.simps, simp)+

lemma rx_Optional_simps [simp]:
  "rx (Optional p # r) [] cap = rx r [] cap"
  "rx (Optional p # r) (c # cs) cap =
     (if p c then (case rx r cs cap of Some g \<Rightarrow> Some g | None \<Rightarrow> rx r (c # cs) cap)
      else rx r (c # cs) cap)"
  by (subst rx.simps, simp)+

lemma rx_Star_simps [simp]:
  "rx (Star p # r) [] cap = rx r [] cap"
  "rx (Star p # r) (c # cs) cap =
     (if p c then (case rx (Star p # r) cs cap of Some g \<Rightarrow> Some g | None \<Rightarrow> rx r (c # cs) cap)
      else rx r (c # cs) cap)"
  by (subst rx.simps, simp)+

lemma rx_GroupLazyPlus_simps [simp]:
  "rx (GroupLazyPlus p # r) [] cap = None"
  "rx (GroupLazyPlus p # r) (c # cs) cap = (if p c then rx (GroupLazyMore p # r) cs [c] else None)"
  by (subst rx.simps, simp)+

lemma rx_GroupLazyMore_simps [simp]:
  "rx (GroupLazyMore p # r) [] cap = rx r [] cap"
  "rx (GroupLazyMore p # r) (c # cs) cap =
     (case rx r (c # cs) cap of
        Some g \<Rightarrow> Some g
      | None \<Rightarrow> if p c then rx (GroupLazyMore p # r) cs (cap @ [c]) else None)"
  by (subst rx.simps, simp split: option.splits)+

lemma rx_Star:
  "rx (Star p # r) s cap = Some g \<Longrightarrow>
   \<exists>pre post. s = pre @ post \<and> list_all p pre \<and> rx r post cap = Some g"
proof (induction s)
  case Nil
  then show ?case by simp
next
  case (Cons c cs)
  show ?case
  proof (cases "p c \<and> rx (Star p # r) cs cap = Some g")
    case True
    with Cons.IH obtain pre post where "cs = pre @ post" "list_all p pre" "rx r post cap = Some g"
      by blast
    with True have "c # cs = (c # pre) @ post \<and> list_all p (c # pre) \<and> rx r post cap = Some g"
      by simp
    then show ?thesis by blast
  next
    case False
    with Cons.prems have "rx r (c # cs) cap = Some g"
      by (auto split: option.splits if_splits)
    then have "c # cs = [] @ (c # cs) \<and> list_all p [] \<and> rx r (c # cs) cap = Some g" by simp
    then show ?thesis by blast
  qed
qed

lemma rx_Class:
  "rx (Class p # r) s cap = Some g \<Longrightarrow> \<exists>c cs. s = c # cs \<and> p c \<and> rx r cs cap = Some g"
  by (cases s) (auto split: if_splits)

lemma rx_Optional:
  "rx (Optional p # r) s cap = Some g \<Longrightarrow>
   \<exists>pre post. s = pre @ post \<and> list_all p pre \<and> length pre \<le> 1 \<and> rx r post cap = Some g"
proof (cases s)
  case Nil
  assume "rx (Optional p # r) s cap = Some g"
  with Nil have "s = [] @ [] \<and> list_all p [] \<and> length ([]::nat list) \<le> 1 \<and> rx r [] cap = Some g" by simp
  then show ?thesis by blast
next
  case (Cons c cs)
  assume a: "rx (Optional p # r) s cap = Some g"
  show ?thesis
  proof (cases "p c \<and> rx r cs cap = Some g")
    case True
    with Cons have "s = [c] @ cs \<and> list_all p [c] \<and> length [c] \<le> 1 \<and> rx r cs cap = Some g" by simp
    then show ?thesis by blast
  next
    case False
    with a Cons have "rx r s cap = Some g" by (auto split: option.splits if_splits)
    then have "s = [] @ s \<and> list_all p [] \<and> length ([]::nat list) \<le> 1 \<and> rx r s cap = Some g" by simp
    then show ?thesis by blast
  qed
qed

lemma rx_GroupLazyMore:
  "rx (GroupLazyMore p # r) s cap = Some g \<Longrightarrow>
   \<exists>pre post. s = pre @ post \<and> list_all p pre \<and> rx r post (cap @ pre) = Some g"
proof (induction s arbitrary: cap)
  case Nil
  then have "rx r [] cap = Some g" by simp
  then show ?case
    by (intro exI [of _ "[]"]) simp
next
  case (Cons c cs)
  show ?case
  proof (cases "rx r (c # cs) cap = Some g")
    case True
    show ?thesis
      by (rule exI [of _ "[]"], rule exI [of _ "c # cs"]) (simp add: True)
  next
    case False
    have u: "(case rx r (c # cs) cap of Some g \<Rightarrow> Some g
              | None \<Rightarrow> if p c then rx (GroupLazyMore p # r) cs (cap @ [c]) else None) = Some g"
      using Cons.prems by simp
    have n: "rx r (c # cs) cap = None"
      using u False by (cases "rx r (c # cs) cap") simp_all
    have pc: "p c" using u n by (simp split: if_splits)
    have m: "rx (GroupLazyMore p # r) cs (cap @ [c]) = Some g" using u n pc by simp
    from Cons.IH [OF m] obtain pre post where
      e: "cs = pre @ post" "list_all p pre" "rx r post ((cap @ [c]) @ pre) = Some g" by blast
    show ?thesis
      by (rule exI [of _ "c # pre"], rule exI [of _ post]) (use e pc in simp)
  qed
qed

lemma rx_GroupLazyPlus:
  "rx (GroupLazyPlus p # r) s cap = Some g \<Longrightarrow>
   \<exists>pre post. s = pre @ post \<and> pre \<noteq> [] \<and> list_all p pre \<and> rx r post pre = Some g"
proof (cases s)
  case Nil
  assume "rx (GroupLazyPlus p # r) s cap = Some g"
  with Nil show ?thesis by simp
next
  case (Cons c cs)
  assume "rx (GroupLazyPlus p # r) s cap = Some g"
  with Cons have pc: "p c" and m: "rx (GroupLazyMore p # r) cs [c] = Some g"
    by (auto split: if_splits)
  from rx_GroupLazyMore [OF m] obtain pre post where
    "cs = pre @ post" "list_all p pre" "rx r post ([c] @ pre) = Some g" by blast
  with Cons pc have "s = (c # pre) @ post \<and> c # pre \<noteq> [] \<and> list_all p (c # pre) \<and> rx r post (c # pre) = Some g"
    by simp
  then show ?thesis by blast
qed

lemma rx_end: "rx [] s cap = Some g \<Longrightarrow> s = [] \<and> g = cap"
  by (auto split: if_splits)

lemma delimited_shape:
  assumes "rx [Star white_space, Class po, GroupLazyPlus dot, Class pc, Star white_space] input [] = Some g"
  shows "\<exists>ws1 lq rq ws2.
           input = ws1 @ [lq] @ g @ [rq] @ ws2 \<and>
           list_all white_space ws1 \<and> po lq \<and> g \<noteq> [] \<and> list_all dot g \<and>
           pc rq \<and> list_all white_space ws2"
proof -
  from rx_Star [OF assms] obtain ws1 s1 where 1: "input = ws1 @ s1" "list_all white_space ws1"
     "rx [Class po, GroupLazyPlus dot, Class pc, Star white_space] s1 [] = Some g" by blast
  from rx_Class [OF 1(3)] obtain lq s2 where 2: "s1 = lq # s2" "po lq"
     "rx [GroupLazyPlus dot, Class pc, Star white_space] s2 [] = Some g" by blast
  from rx_GroupLazyPlus [OF 2(3)] obtain grp s3 where 3: "s2 = grp @ s3" "grp \<noteq> []" "list_all dot grp"
     "rx [Class pc, Star white_space] s3 grp = Some g" by blast
  from rx_Class [OF 3(4)] obtain rq s4 where 4: "s3 = rq # s4" "pc rq"
     "rx [Star white_space] s4 grp = Some g" by blast
  from rx_Star [OF 4(3)] obtain ws2 s5 where 5: "s4 = ws2 @ s5" "list_all white_space ws2"
     "rx [] s5 grp = Some g" by blast
  from rx_end [OF 5(3)] have 6: "s5 = []" "g = grp" by simp_all
  have "input = ws1 @ [lq] @ g @ [rq] @ ws2"
    using 1(1) 2(1) 3(1) 4(1) 5(1) 6 by simp
  then show ?thesis using 1(2) 2(2) 3(2,3) 4(2) 5(2) 6(2) by blast
qed

lemma quoted_shape:
  assumes "rx [Star white_space, Class po, GroupLazyPlus dot, Optional pc, Star white_space] input [] = Some g"
  shows "\<exists>ws1 lq rq ws2.
           input = ws1 @ [lq] @ g @ rq @ ws2 \<and>
           list_all white_space ws1 \<and> po lq \<and> g \<noteq> [] \<and> list_all dot g \<and>
           list_all pc rq \<and> length rq \<le> 1 \<and> list_all white_space ws2"
proof -
  from rx_Star [OF assms] obtain ws1 s1 where 1: "input = ws1 @ s1" "list_all white_space ws1"
     "rx [Class po, GroupLazyPlus dot, Optional pc, Star white_space] s1 [] = Some g" by blast
  from rx_Class [OF 1(3)] obtain lq s2 where 2: "s1 = lq # s2" "po lq"
     "rx [GroupLazyPlus dot, Optional pc, Star white_space] s2 [] = Some g" by blast
  from rx_GroupLazyPlus [OF 2(3)] obtain grp s3 where 3: "s2 = grp @ s3" "grp \<noteq> []" "list_all dot grp"
     "rx [Optional pc, Star white_space] s3 grp = Some g" by blast
  from rx_Optional [OF 3(4)] obtain rq s4 where 4: "s3 = rq @ s4" "list_all pc rq"
     "length rq \<le> 1" "rx [Star white_space] s4 grp = Some g" by blast
  from rx_Star [OF 4(4)] obtain ws2 s5 where 5: "s4 = ws2 @ s5" "list_all white_space ws2"
     "rx [] s5 grp = Some g" by blast
  from rx_end [OF 5(3)] have 6: "s5 = []" "g = grp" by simp_all
  have "input = ws1 @ [lq] @ g @ rq @ ws2"
    using 1(1) 2(1) 3(1) 4(1) 5(1) 6 by simp
  then show ?thesis using 1(2) 2(2) 3(2,3) 4(2,3) 5(2) 6(2) by blast
qed

lemmas regex_defs = js_match_def actionRegex_def itemRegex_def dialogueRegex_def
  white_space_def dot_def one_of_def

lemma parse_example_action:
  "parseActionInput [0x3010, 0x653B, 0x51FB, 0x95E8, 0x3011]
     = \<lparr>p_type = ACTION, p_content = [0x653B, 0x51FB, 0x95E8]\<rparr>"
  by (simp add: parseActionInput_def regex_defs)

lemma parse_example_item:
  "parseActionInput [0x300C, 0x4F7F, 0x7528, 0x836F, 0x6C34, 0x300D]
     = \<lparr>p_type = ITEM, p_content = [0x4F7F, 0x7528, 0x836F, 0x6C34]\<rparr>"
  by (simp add: parseActionInput_def regex_defs)

lemma parse_example_dialogue:
  "parseActionInput [0x4F60, 0x597D] = \<lparr>p_type = DIALOGUE, p_content = [0x4F60, 0x597D]\<rparr>"
  by (simp add: parseActionInput_def regex_defs)

lemma action_match_shape:
  assumes "js_match actionRegex input = Some g"
  shows "\<exists>ws1 lq rq ws2.
           input = ws1 @ [lq] @ g @ [rq] @ ws2 \<and>
           list_all white_space ws1 \<and> lq \<in> {0x5B, 0x3010} \<and> g \<noteq> [] \<and> list_all dot g \<and>
           rq \<in> {0x5D, 0x3011} \<and> list_all white_space ws2"
  using delimited_shape [of "one_of [0x5B, 0x3010]" "one_of [0x5D, 0x3011]" input g] assms
  by (simp add: js_match_def actionRegex_def one_of_def)

lemma item_match_shape:
  assumes "js_match itemRegex input = Some g"
  shows "\<exists>ws1 lq rq ws2.
           input = ws1 @ [lq] @ g @ [rq] @ ws2 \<and>
           list_all white_space ws1 \<and> lq \<in> {0x7B, 0x300C} \<and> g \<noteq> [] \<and> list_all dot g \<and>
           rq \<in> {0x7D, 0x300D} \<and> list_all white_space ws2"
  using delimited_shape [of "one_of [0x7B, 0x300C]" "one_of [0x7D, 0x300D]" input g] assms
  by (simp add: js_match_def itemRegex_def one_of_def)

lemma dialogue_match_shape:
  assumes "js_match dialogueRegex input = Some g"
  shows "\<exists>ws1 rq ws2.
           input = ws1 @ [0x22] @ g @ rq @ ws2 \<and>
           list_all white_space ws1 \<and> g \<noteq> [] \<and> list_all dot g \<and>
           (rq = [] \<or> rq = [0x22]) \<and> list_all white_space ws2"
proof -
  from quoted_shape [of "one_of [0x22, 0x22]" "one_of [0x22, 0x22]" input g] assms
  obtain ws1 lq rq ws2 where s: "input = ws1 @ [lq] @ g @ rq @ ws2"
     "list_all white_space ws1" "one_of [0x22, 0x22] lq" "g \<noteq> []" "list_all dot g"
     "list_all (one_of [0x22, 0x22]) rq" "length rq \<le> 1" "list_all white_space ws2"
    unfolding js_match_def dialogueRegex_def by blast
  have lq: "lq = 0x22" using s(3) by (simp add: one_of_def)
  have rq: "rq = [] \<or> rq = [0x22]"
  proof (cases rq)
    case Nil
    then show ?thesis by simp
  next
    case (Cons x xs)
    with s(6,7) show ?thesis by (simp add: one_of_def)
  qed
  show ?thesis
    by (rule exI [of _ ws1], rule exI [of _ rq], rule exI [of _ ws2]) (use s lq rq in simp)
qed

text \<open>
  Claim C9. \<open>parseActionInput\<close> maps \<open>U+3010 U+653B U+51FB U+95E8 U+3011\<close> to ACTION with the
  brackets stripped, \<open>U+300C U+4F7F U+7528 U+836F U+6C34 U+300D\<close> to ITEM with the braces
  stripped and \<open>U+4F60 U+597D\<close> to DIALOGUE unchanged. The bracket pattern is tried first,
  then the brace pattern, then the quote pattern, and the first that matches decides the
  result; a match covers the whole input: optional white space, the opening delimiter, the
  captured content, the closing delimiter (optional for a quote), optional white space. An
  input that matches none of them is a DIALOGUE with the input as content.
\<close>

theorem parseActionInput_patterns:
  "parseActionInput [0x3010, 0x653B, 0x51FB, 0x95E8, 0x3011]
     = \<lparr>p_type = ACTION, p_content = [0x653B, 0x51FB, 0x95E8]\<rparr> \<and>
   parseActionInput [0x300C, 0x4F7F, 0x7528, 0x836F, 0x6C34, 0x300D]
     = \<lparr>p_type = ITEM, p_content = [0x4F7F, 0x7528, 0x836F, 0x6C34]\<rparr> \<and>
   parseActionInput [0x4F60, 0x597D] = \<lparr>p_type = DIALOGUE, p_content = [0x4F60, 0x597D]\<rparr> \<and>
   (\<forall>g. js_match actionRegex input = Some g \<longrightarrow>
      parseActionInput input = \<lparr>p_type = ACTION, p_content = g\<rparr> \<and>
      (\<exists>ws1 lq rq ws2.
         input = ws1 @ [lq] @ g @ [rq] @ ws2 \<and>
         list_all white_space ws1 \<and> lq \<in> {0x5B, 0x3010} \<and> g \<noteq> [] \<and> list_all dot g \<and>
         rq \<in> {0x5D, 0x3011} \<and> list_all white_space ws2)) \<and>
   (\<forall>g. js_match actionRegex input = None \<and> js_match itemRegex input = Some g \<longrightarrow>
      parseActionInput input = \<lparr>p_type = ITEM, p_content = g\<rparr> \<and>
      (\<exists>ws1 lq rq ws2.
         input = ws1 @ [lq] @ g @ [rq] @ ws2 \<and>
         list_all white_space ws1 \<and> lq \<in> {0x7B, 0x300C} \<and> g \<noteq> [] \<and> list_all dot g \<and>
         rq \<in> {0x7D, 0x300D} \<and> list_all white_space ws2)) \<and>
   (\<forall>g. js_match actionRegex input = None \<and> js_match itemRegex input = None \<and>
        js_match dialogueRegex input = Some g \<longrightarrow>
      parseActionInput input = \<lparr>p_type = DIALOGUE, p_content = g\<rparr> \<and>
      (\<exists>ws1 rq ws2.
         input = ws1 @ [0x22] @ g @ rq @ ws2 \<and>
         list_all white_space ws1 \<and> g \<noteq> [] \<and> list_all dot g \<and>
         (rq = [] \<or> rq = [0x22]) \<and> list_all white_space ws2)) \<and>
   (js_match actionRegex input = None \<and> js_match itemRegex input = None \<and>
    js_match dialogueRegex input = None \<longrightarrow>
      parseActionInput input = \<lparr>p_type = DIALOGUE, p_content = input\<rparr>)"
proof (intro conjI allI impI)
  show "parseActionInput [0x3010, 0x653B, 0x51FB, 0x95E8, 0x3011]
          = \<lparr>p_type = ACTION, p_content = [0x653B, 0x51FB, 0x95E8]\<rparr>"
    by (rule parse_example_action)
  show "parseActionInput [0x300C, 0x4F7F, 0x7528, 0x836F, 0x6C34, 0x300D]
          = \<lparr>p_type = ITEM, p_content = [0x4F7F, 0x7528, 0x836F, 0x6C34]\<rparr>"
    by (rule parse_example_item)
  show "parseActionInput [0x4F60, 0x597D] = \<lparr>p_type = DIALOGUE, p_content = [0x4F60, 0x597D]\<rparr>"
    by (rule parse_example_dialogue)
next
  fix g assume "js_match actionRegex input = Some g"
  then show "parseActionInput input = \<lparr>p_type = ACTION, p_content = g\<rparr>"
    by (simp add: parseActionInput_def)
next
  fix g assume "js_match actionRegex input = Some g"
  then show "\<exists>ws1 lq rq ws2.
         input = ws1 @ [lq] @ g @ [rq] @ ws2 \<and>
         list_all white_space ws1 \<and> lq \<in> {0x5B, 0x3010} \<and> g \<noteq> [] \<and> list_all dot g \<and>
         rq \<in> {0x5D, 0x3011} \<and> list_all white_space ws2"
    by (rule action_match_shape)
next
  fix g assume "js_match actionRegex input = None \<and> js_match itemRegex input = Some g"
  then show "parseActionInput input = \<lparr>p_type = ITEM, p_content = g\<rparr>"
    by (simp add: parseActionInput_def)
next
  fix g assume "js_match actionRegex input = None \<and> js_match itemRegex input = Some g"
  then have "js_match itemRegex input = Some g" by simp
  then show "\<exists>ws1 lq rq ws2.
         input = ws1 @ [lq] @ g @ [rq] @ ws2 \<and>
         list_all white_space ws1 \<and> lq \<in> {0x7B, 0x300C} \<and> g \<noteq> [] \<and> list_all dot g \<and>
         rq \<in> {0x7D, 0x300D} \<and> list_all white_space ws2"
    by (rule item_match_shape)
next
  fix g assume "js_match actionRegex input = None \<and> js_match itemRegex input = None \<and>
        js_match dialogueRegex input = Some g"
  then show "parseActionInput input = \<lparr>p_type = DIALOGUE, p_content = g\<rparr>"
    by (simp add: parseActionInput_def)
next
  fix g assume "js_match actionRegex input = None \<and> js_match itemRegex input = None \<and>
        js_match dialogueRegex input = Some g"
  then have "js_match dialogueRegex input = Some g" by simp
  then show "\<exists>ws1 rq ws2.
         input = ws1 @ [0x22] @ g @ rq @ ws2 \<and>
         list_all white_space ws1 \<and> g \<noteq> [] \<and> list_all dot g \<and>
         (rq = [] \<or> rq = [0x22]) \<and> list_all white_space ws2"
    by (rule dialogue_match_shape)
next
  assume "js_match actionRegex input = None \<and> js_match itemRegex input = None \<and>
    js_match dialogueRegex input = None"
  then show "parseActionInput input = \<lparr>p_type = DIALOGUE, p_content = input\<rparr>"
    by (simp add: parseActionInput_def)
qed

theorem parseActionInput_patterns_witness:
  "js_match actionRegex [0x20, 0x5B, 0x61, 0x5D, 0x5B, 0x62, 0x5D, 0x0A] = Some [0x61, 0x5D, 0x5B, 0x62] \<and>
   parseActionInput [0x20, 0x5B, 0x61, 0x5D, 0x5B, 0x62, 0x5D, 0x0A]
     = \<lparr>p_type = ACTION, p_content = [0x61, 0x5D, 0x5B, 0x62]\<rparr> \<and>
   js_match actionRegex [0x7B, 0x61, 0x7D] = None \<and> js_match itemRegex [0x7B, 0x61, 0x7D] = Some [0x61] \<and>
   parseActionInput [0x7B, 0x61, 0x7D] = \<lparr>p_type = ITEM, p_content = [0x61]\<rparr> \<and>
   js_match actionRegex [0x22, 0x61, 0x22] = None \<and> js_match itemRegex [0x22, 0x61, 0x22] = None \<and>
   js_match dialogueRegex [0x22, 0x61, 0x22] = Some [0x61] \<and>
   parseActionInput [0x22, 0x61, 0x22] = \<lparr>p_type = DIALOGUE, p_content = [0x61]\<rparr> \<and>
   js_match actionRegex [0x61, 0x5D] = None \<and> js_match itemRegex [0x61, 0x5D] = None \<and>
   js_match dialogueRegex [0x61, 0x5D] = None \<and>
   parseActionInput [0x61, 0x5D] = \<lparr>p_type = DIALOGUE, p_content = [0x61, 0x5D]\<rparr>"
proof -
  have a: "js_match actionRegex [0x20, 0x5B, 0x61, 0x5D, 0x5B, 0x62, 0x5D, 0x0A] = Some [0x61, 0x5D, 0x5B, 0x62]"
    by (simp add: regex_defs)
  have i: "js_match actionRegex [0x7B, 0x61, 0x7D] = None \<and> js_match itemRegex [0x7B, 0x61, 0x7D] = Some [0x61]"
    by (simp add: regex_defs)
  have d: "js_match actionRegex [0x22, 0x61, 0x22] = None \<and> js_match itemRegex [0x22, 0x61, 0x22] = None \<and>
           js_match dialogueRegex [0x22, 0x61, 0x22] = Some [0x61]"
    by (simp add: regex_defs)
  have n: "js_match actionRegex [0x61, 0x5D] = None \<and> js_match itemRegex [0x61, 0x5D] = None \<and>
           js_match dialogueRegex [0x61, 0x5D] = None"
    by (simp add: regex_defs)
  show ?thesis
    using parseActionInput_patterns [of "[0x20, 0x5B, 0x61, 0x5D, 0x5B, 0x62, 0x5D, 0x0A]"]
          parseActionInput_patterns [of "[0x7B, 0x61, 0x7D]"]
          parseActionInput_patterns [of "[0x22, 0x61, 0x22]"]
          parseActionInput_patterns [of "[0x61, 0x5D]"]
          a i d n
    by simp
qed

end
